theory Spec2Isabelle
  imports Main
begin

section \<open>JavaScript values\<close>

text \<open>
  The demo application (express/simple-express-app) is JavaScript. Values that cross its
  interfaces (JSON request bodies, token payloads, Socket.IO event data, error objects)
  are modelled by \<open>jsval\<close>. An object is the list of its own enumerable properties in
  enumeration order; a property read takes the first entry of a key. Numbers are the
  integers (status codes, error codes, ids): no claim depends on fractions.
\<close>

datatype jsval =
    JUndefined
  | JNull
  | JBool bool
  | JNum int
  | JStr string
  | JArr "jsval list"
  | JObj "(string \<times> jsval) list"

text \<open>
  What a call can throw: a TypeError of the language, and the rejections of the model
  layer (no connection to MongoDB, Mongoose's ValidationError with the paths that
  failed, MongoDB's duplicate-key error E11000 with the path of the unique index,
  bcryptjs's "Illegal arguments" for an argument that is not a string and its "Invalid
  salt" for a hash whose salt it cannot read).
\<close>

datatype exn =
    TypeError
  | DbUnavailable
  | ValidationFailed "string list"
  | DuplicateKey string
  | IllegalArguments
  | InvalidSalt

text \<open>JavaScript truthiness, as \<open>!x\<close>, \<open>if (x)\<close> and \<open>x || y\<close> read it.\<close>

fun truthy :: "jsval \<Rightarrow> bool" where
  "truthy JUndefined = False"
| "truthy JNull = False"
| "truthy (JBool b) = b"
| "truthy (JNum n) = (n \<noteq> 0)"
| "truthy (JStr s) = (s \<noteq> [])"
| "truthy (JArr xs) = True"
| "truthy (JObj kvs) = True"

text \<open>\<open>a || b\<close>\<close>

definition js_or :: "jsval \<Rightarrow> jsval \<Rightarrow> jsval" where
  "js_or a b = (if truthy a then a else b)"

text \<open>
  \<open>v.k\<close> for the property names the application reads (\<open>id\<close>, \<open>message\<close>, \<open>room\<close>,
  \<open>user\<close>, ...): reading a property of \<open>undefined\<close> or \<open>null\<close> throws a TypeError, a
  missing property and a property of a primitive or an array read as \<open>undefined\<close>.
\<close>

fun get_prop :: "jsval \<Rightarrow> string \<Rightarrow> exn + jsval" where
  "get_prop JUndefined k = Inl TypeError"
| "get_prop JNull k = Inl TypeError"
| "get_prop (JObj kvs) k = Inr (case map_of kvs k of None \<Rightarrow> JUndefined | Some v \<Rightarrow> v)"
| "get_prop v k = Inr JUndefined"

text \<open>\<open>o.k = v\<close> on an object held as a property list.\<close>

fun set_prop :: "string \<Rightarrow> 'a \<Rightarrow> (string \<times> 'a) list \<Rightarrow> (string \<times> 'a) list" where
  "set_prop k v [] = [(k, v)]"
| "set_prop k v (p # ps) = (if fst p = k then (k, v) # ps else p # set_prop k v ps)"

text \<open>
  \<open>Object.values(v)\<close>: throws on \<open>undefined\<close> and \<open>null\<close>, the property values of an
  object, the elements of an array, the characters of a string, nothing for a number or
  a boolean.
\<close>

fun object_values :: "jsval \<Rightarrow> exn + jsval list" where
  "object_values JUndefined = Inl TypeError"
| "object_values JNull = Inl TypeError"
| "object_values (JObj kvs) = Inr (map snd kvs)"
| "object_values (JArr xs) = Inr xs"
| "object_values (JStr s) = Inr (map (\<lambda>c. JStr [c]) s)"
| "object_values v = Inr []"

text \<open>\<open>xs.map(val => val.message)\<close>: the first read that throws ends the loop.\<close>

fun map_message :: "jsval list \<Rightarrow> exn + jsval list" where
  "map_message [] = Inr []"
| "map_message (v # vs) =
     (case get_prop v ''message'' of
        Inl e \<Rightarrow> Inl e
      | Inr m \<Rightarrow> (case map_message vs of Inl e \<Rightarrow> Inl e | Inr ms \<Rightarrow> Inr (m # ms)))"

text \<open>
  \<open>s.replace(pat, rep)\<close> with a string pattern: the first occurrence of \<open>pat\<close> is
  replaced, the rest of \<open>s\<close> is kept (\<open>rep\<close> holds no \<open>$\<close> pattern where the application
  calls it).
\<close>

fun js_replace :: "string \<Rightarrow> string \<Rightarrow> string \<Rightarrow> string" where
  "js_replace pat rep [] = (if pat = [] then rep else [])"
| "js_replace pat rep (c # cs) =
     (if take (length pat) (c # cs) = pat then rep @ drop (length pat) (c # cs)
      else c # js_replace pat rep cs)"

section \<open>The environment and the libraries\<close>

text \<open>
  \<open>process.env.JWT_SECRET\<close> (absent when the variable is not set) and the clock that
  \<open>new Date()\<close> reads.
\<close>

record env =
  JWT_SECRET :: "string option"
  now :: nat

text \<open>
  The npm packages the application calls are not code of this repository; what they
  return is a parameter of the model. \<open>None\<close> stands for a call that throws (or a
  promise that rejects).
  \<^item> \<open>jwt_sign payload secret\<close>, \<open>jwt_verify token secret\<close>: jsonwebtoken;
  \<^item> \<open>bcrypt_genSalt rounds\<close>: the salt string bcryptjs draws (\<open>$2a$10$\<close> and 22
    characters for 10 rounds); \<open>bcrypt_crypt key salt\<close>: the hash string it computes
    from the bytes of a key and a salt string; \<open>bcrypt_valid_salt\<close>: whether it can read a
    salt string;
  \<^item> \<open>isEmail\<close>, \<open>normalizeEmail\<close>: the validators express-validator takes from
    validator.js;
  \<^item> \<open>post_create data\<close>: \<open>new Post(data)\<close>, \<open>save()\<close> and \<open>populate("author", "name email")\<close>
    of Mongoose, giving the populated document.
\<close>

record lib =
  jwt_sign :: "jsval \<Rightarrow> string option \<Rightarrow> string option"
  jwt_verify :: "string \<Rightarrow> string option \<Rightarrow> jsval option"
  bcrypt_genSalt :: "nat \<Rightarrow> string"
  bcrypt_crypt :: "string \<Rightarrow> string \<Rightarrow> string"
  bcrypt_valid_salt :: "string \<Rightarrow> bool"
  isEmail :: "string \<Rightarrow> bool"
  normalizeEmail :: "string \<Rightarrow> string"
  post_create :: "jsval \<Rightarrow> jsval option"

text \<open>
  What bcryptjs makes of a password before it hashes: the UTF-8 bytes of the string (one
  byte for a character below 128, two for the others below 256), a NUL byte after them,
  and of these the first 72; the key schedule reads no byte beyond them.
\<close>

definition utf8_char :: "char \<Rightarrow> string" where
  "utf8_char c =
     (if digit7 c
      then [Char (digit6 c) (digit7 c) False False False False True True,
            Char (digit0 c) (digit1 c) (digit2 c) (digit3 c) (digit4 c) (digit5 c) False True]
      else [c])"

definition utf8 :: "string \<Rightarrow> string" where
  "utf8 s = concat (map utf8_char s)"

definition bcrypt_key :: "string \<Rightarrow> string" where
  "bcrypt_key s = take 72 (utf8 s @ [CHR 0x00])"

text \<open>
  \<open>bcrypt.hash(s, rounds)\<close> draws a salt and hashes the key of \<open>s\<close> with it.
  \<open>bcrypt.compare(s, hash)\<close> is false for a hash that is not 60 characters long, else it
  hashes the key of \<open>s\<close> with the first 29 characters of the hash (the salt string) and
  compares the result with the hash; it rejects a salt string it cannot read. Both take
  strings: the callers below reject what is not one.
\<close>

definition bcrypt_hash :: "lib \<Rightarrow> string \<Rightarrow> nat \<Rightarrow> string" where
  "bcrypt_hash L s rounds = bcrypt_crypt L (bcrypt_key s) (bcrypt_genSalt L rounds)"

definition bcrypt_compare :: "lib \<Rightarrow> string \<Rightarrow> string \<Rightarrow> exn + bool" where
  "bcrypt_compare L s h =
     (if length h \<noteq> 60 then Inr False
      else if \<not> bcrypt_valid_salt L (take 29 h) then Inl InvalidSalt
      else Inr (bcrypt_crypt L (bcrypt_key s) (take 29 h) = h))"

section \<open>HTTP responses\<close>

text \<open>\<open>res.status(s).json(b)\<close>; \<open>res.json(b)\<close> alone answers with status 200.\<close>

record response =
  status :: jsval
  body :: jsval

definition json_error :: "int \<Rightarrow> string \<Rightarrow> response" where
  "json_error code msg = \<lparr>status = JNum code, body = JObj [(''error'', JStr msg)]\<rparr>"

section \<open>middleware/auth.js\<close>

text \<open>
  \<open>authorization\<close> is what \<open>req.header("Authorization")\<close> returns, \<open>req_user\<close> is \<open>req.user\<close>.
  The middleware either answers (and does not call \<open>next\<close>) or calls \<open>next()\<close> with the
  request it has changed.
\<close>

record request =
  authorization :: "string option"
  req_user :: jsval

datatype mw_result = Respond response | CallNext request

text \<open>\<open>const token = req.header("Authorization")?.replace("Bearer ", "")\<close>\<close>

definition token_of :: "request \<Rightarrow> string option" where
  "token_of req = map_option (js_replace ''Bearer '' '''') (authorization req)"

definition auth :: "lib \<Rightarrow> env \<Rightarrow> request \<Rightarrow> mw_result" where
  "auth L E req =
     (case token_of req of
        None \<Rightarrow> Respond (json_error 401 ''No token, authorization denied'')
      | Some token \<Rightarrow>
          if token = [] then Respond (json_error 401 ''No token, authorization denied'')
          else
            (case jwt_verify L token (JWT_SECRET E) of
               None \<Rightarrow> Respond (json_error 401 ''Token is not valid'')
             | Some decoded \<Rightarrow>
                 (case get_prop decoded ''id'' of
                    Inl e \<Rightarrow> Respond (json_error 401 ''Token is not valid'')
                  | Inr i \<Rightarrow> CallNext (req\<lparr>req_user := JObj [(''id'', i)]\<rparr>))))"

section \<open>middleware/error.js\<close>

text \<open>
  An error object: \<open>enumerable\<close> are its own enumerable properties, the ones \<open>{ ...err }\<close>
  copies; \<open>hidden\<close> are the properties a read finds but the spread does not copy (own
  non-enumerable ones such as the \<open>message\<close> and \<open>stack\<close> of an \<open>Error\<close>, and inherited
  ones such as \<open>Error.prototype.name\<close>).
\<close>

record js_error =
  enumerable :: "(string \<times> jsval) list"
  hidden :: "(string \<times> jsval) list"

definition err_get :: "js_error \<Rightarrow> string \<Rightarrow> jsval" where
  "err_get err k =
     (case map_of (enumerable err) k of
        Some v \<Rightarrow> v
      | None \<Rightarrow> (case map_of (hidden err) k of Some v \<Rightarrow> v | None \<Rightarrow> JUndefined))"

definition obj_get :: "(string \<times> jsval) list \<Rightarrow> string \<Rightarrow> jsval" where
  "obj_get kvs k = (case map_of kvs k of None \<Rightarrow> JUndefined | Some v \<Rightarrow> v)"

text \<open>
  The three \<open>if\<close>s are not chained by \<open>else\<close>: each one that holds overwrites \<open>error\<close>.
  The handler throws when \<open>err.name\<close> is \<open>"ValidationError"\<close> and \<open>err.errors\<close> cannot be
  listed.
\<close>

definition errorHandler :: "js_error \<Rightarrow> exn + response" where
  "errorHandler err =
     (let error0 = set_prop ''message'' (err_get err ''message'') (enumerable err);
          error1 = (if err_get err ''name'' = JStr ''CastError''
                    then [(''message'', JStr ''Resource not found''), (''statusCode'', JNum 404)]
                    else error0);
          error2 = (if err_get err ''code'' = JNum 11000
                    then [(''message'', JStr ''Duplicate field value entered''),
                          (''statusCode'', JNum 400)]
                    else error1);
          error3 = (if err_get err ''name'' = JStr ''ValidationError''
                    then (case object_values (err_get err ''errors'') of
                            Inl e \<Rightarrow> Inl e
                          | Inr vals \<Rightarrow>
                              (case map_message vals of
                                 Inl e \<Rightarrow> Inl e
                               | Inr msgs \<Rightarrow>
                                   Inr [(''message'', JArr msgs), (''statusCode'', JNum 400)]))
                    else Inr error2)
      in case error3 of
           Inl e \<Rightarrow> Inl e
         | Inr error \<Rightarrow>
             Inr \<lparr>status = js_or (obj_get error ''statusCode'') (JNum 500),
                  body = JObj [(''success'', JBool False),
                               (''error'', js_or (obj_get error ''message'') (JStr ''Server Error''))]\<rparr>)"

section \<open>models/User.js and models/Post.js\<close>

text \<open>
  A Mongoose schema as it is declared: every path with the options written for it, and
  the schema option \<open>timestamps\<close>.
\<close>

datatype schema_type = TString | TObjectId

datatype path_option =
    Type schema_type
  | Required bool
  | Unique bool
  | Trim bool
  | Ref string

record schema =
  paths :: "(string \<times> path_option list) list"
  timestamps :: bool

definition userSchema :: schema where
  "userSchema =
     \<lparr>paths =
        [(''name'', [Type TString, Required True, Trim True]),
         (''email'', [Type TString, Required True, Unique True]),
         (''password'', [Type TString, Required True])],
      timestamps = True\<rparr>"

definition postSchema :: schema where
  "postSchema =
     \<lparr>paths =
        [(''title'', [Type TString, Required True]),
         (''content'', [Type TString, Required True]),
         (''author'', [Type TObjectId, Ref ''User'', Required True])],
      timestamps = True\<rparr>"

text \<open>The \<open>mongoose.model(name, schema)\<close> calls of the application.\<close>

definition models :: "(string \<times> schema) list" where
  "models = [(''User'', userSchema), (''Post'', postSchema)]"

definition has_option :: "schema \<Rightarrow> string \<Rightarrow> path_option \<Rightarrow> bool" where
  "has_option sch p opt = (case map_of (paths sch) p of None \<Rightarrow> False | Some os \<Rightarrow> opt \<in> set os)"

definition paths_with :: "schema \<Rightarrow> path_option \<Rightarrow> string list" where
  "paths_with sch opt = map fst (filter (\<lambda>(p, os). opt \<in> set os) (paths sch))"

text \<open>
  Whitespace as JavaScript's \<open>String.prototype.trim\<close> and the \<open>\s\<close> of validator.js's
  \<open>trim\<close> read it, among the characters below 256 (a \<open>char\<close> stands for one character
  of a JavaScript string): tab, line feed, vertical tab, form feed, carriage return,
  space and no-break space.
\<close>

definition is_space :: "char \<Rightarrow> bool" where
  "is_space c = (c \<in> set [CHR 0x09, CHR 0x0A, CHR 0x0B, CHR 0x0C, CHR 0x0D, CHR 0x20, CHR 0xA0])"

definition trim :: "string \<Rightarrow> string" where
  "trim s = rev (dropWhile is_space (rev (dropWhile is_space s)))"

text \<open>
  A User document. Its paths are strings, so \<open>doc_fields\<close> holds the paths that are set;
  \<open>modified\<close> are the paths \<open>isModified\<close> answers for; \<open>doc_id\<close> stands for the ObjectId.
\<close>

record document =
  doc_id :: nat
  doc_fields :: "(string \<times> string) list"
  modified :: "string list"
  createdAt :: "nat option"
  updatedAt :: "nat option"

definition field :: "document \<Rightarrow> string \<Rightarrow> string option" where
  "field d p = map_of (doc_fields d) p"

text \<open>
  \<open>new User(obj)\<close>: the paths of the schema that \<open>obj\<close> gives are set, each through the
  setters its options declare (\<open>trim: true\<close>); \<open>undefined\<close> sets nothing. Every path of the
  schema that \<open>obj\<close> has a key for is marked modified, also when its value is
  \<open>undefined\<close>.
\<close>

definition apply_setters :: "schema \<Rightarrow> string \<Rightarrow> string \<Rightarrow> string" where
  "apply_setters sch p v = (if has_option sch p (Trim True) then trim v else v)"

fun given :: "schema \<Rightarrow> (string \<times> string option) list \<Rightarrow> (string \<times> string) list" where
  "given sch [] = []"
| "given sch ((p, None) # kvs) = given sch kvs"
| "given sch ((p, Some v) # kvs) =
     (if p \<in> set (map fst (paths sch)) then (p, apply_setters sch p v) # given sch kvs
      else given sch kvs)"

definition new_document :: "schema \<Rightarrow> nat \<Rightarrow> (string \<times> string option) list \<Rightarrow> document" where
  "new_document sch i obj =
     \<lparr>doc_id = i, doc_fields = given sch obj,
      modified = filter (\<lambda>p. p \<in> set (map fst (paths sch))) (map fst obj),
      createdAt = None, updatedAt = None\<rparr>"

text \<open>
  The \<open>required\<close> validator of a string path fails when the path is unset or the empty
  string. Validation gives the paths that failed.
\<close>

definition validate :: "schema \<Rightarrow> document \<Rightarrow> string list" where
  "validate sch d =
     filter (\<lambda>p. case field d p of None \<Rightarrow> True | Some v \<Rightarrow> v = []) (paths_with sch (Required True))"

text \<open>
  \<open>userSchema.pre("save", ...)\<close>: nothing when the password is not modified, else the
  password becomes \<open>bcrypt.hash(this.password, 10)\<close> (which rejects a password that is
  not a string).
\<close>

definition pre_save :: "lib \<Rightarrow> document \<Rightarrow> exn + document" where
  "pre_save L d =
     (if ''password'' \<notin> set (modified d) then Inr d
      else (case field d ''password'' of
              None \<Rightarrow> Inl IllegalArguments
            | Some p \<Rightarrow>
                Inr (d\<lparr>doc_fields := set_prop ''password'' (bcrypt_hash L p 10) (doc_fields d)\<rparr>)))"

text \<open>
  \<open>userSchema.methods.comparePassword\<close>: \<open>bcrypt.compare(candidatePassword,
  this.password)\<close>, which rejects with "Illegal arguments" when one of the two is not a
  string.
\<close>

definition comparePassword :: "lib \<Rightarrow> document \<Rightarrow> string option \<Rightarrow> exn + bool" where
  "comparePassword L d candidatePassword =
     (case candidatePassword of
        None \<Rightarrow> Inl IllegalArguments
      | Some c \<Rightarrow>
          (case field d ''password'' of
             None \<Rightarrow> Inl IllegalArguments
           | Some h \<Rightarrow> bcrypt_compare L c h))"

text \<open>
  The database: the \<open>users\<close> collection in insertion order, whether the connection is
  up, and the next ObjectId.
\<close>

record db =
  users :: "document list"
  connected :: bool
  next_id :: nat

text \<open>
  \<open>User.findOne({ email })\<close>: the first user with that email; every stored user has an
  email (the path is required), so an absent email finds nobody.
\<close>

definition findOne :: "db \<Rightarrow> string option \<Rightarrow> exn + document option" where
  "findOne D e =
     (if \<not> connected D then Inl DbUnavailable
      else Inr (case e of
                  None \<Rightarrow> None
                | Some a \<Rightarrow> find (\<lambda>u. field u ''email'' = Some a) (users D)))"

text \<open>
  \<open>user.save()\<close> of a new document: validation (Mongoose runs it before the schema's own
  pre-save hooks), the pre-save hook, the timestamps, then the insert, which the unique
  index on \<open>email\<close> refuses for an email that is stored already.
\<close>

definition save :: "lib \<Rightarrow> env \<Rightarrow> db \<Rightarrow> document \<Rightarrow> exn + (db \<times> document)" where
  "save L E D d =
     (if validate userSchema d \<noteq> [] then Inl (ValidationFailed (validate userSchema d))
      else
        (case pre_save L d of
           Inl e \<Rightarrow> Inl e
         | Inr d1 \<Rightarrow>
             (let d2 = (if timestamps userSchema
                        then d1\<lparr>createdAt := Some (now E), updatedAt := Some (now E)\<rparr>
                        else d1)
              in if \<not> connected D then Inl DbUnavailable
                 else
                   (case filter (\<lambda>p. list_ex (\<lambda>u. field u p = field d2 p) (users D))
                           (paths_with userSchema (Unique True)) of
                      p # ps \<Rightarrow> Inl (DuplicateKey p)
                    | [] \<Rightarrow>
                        Inr (D\<lparr>users := users D @ [d2\<lparr>modified := []\<rparr>],
                               next_id := Suc (next_id D)\<rparr>,
                             d2\<lparr>modified := []\<rparr>)))))"

section \<open>routes/auth.js\<close>

text \<open>
  \<open>req.body\<close> of the two routes, as \<open>express.json()\<close> leaves it: each of the three
  fields is absent or a string (other JSON values are not modelled). The validators of
  express-validator read an absent field as the empty string.
\<close>

record body =
  name :: "string option"
  email :: "string option"
  password :: "string option"

definition opt_json :: "string option \<Rightarrow> jsval" where
  "opt_json v = (case v of None \<Rightarrow> JUndefined | Some s \<Rightarrow> JStr s)"

definition to_string :: "string option \<Rightarrow> string" where
  "to_string v = (case v of None \<Rightarrow> [] | Some s \<Rightarrow> s)"

text \<open>
  \<open>isLength({ min })\<close> counts characters; with one \<open>char\<close> for a character that is the
  length of the list.
\<close>

definition isLength :: "nat \<Rightarrow> string \<Rightarrow> bool" where
  "isLength minimum s = (minimum \<le> length s)"

text \<open>
  One entry of \<open>errors.array()\<close>, as express-validator 7 makes it: the value the validator
  refused (what the sanitizers before it have made of the field), the message, the path
  of the field and its location.
\<close>

record validation_error =
  refused :: jsval
  msg :: string
  path :: string

definition error_json :: "validation_error \<Rightarrow> jsval" where
  "error_json e =
     JObj [(''type'', JStr ''field''), (''value'', refused e), (''msg'', JStr (msg e)),
           (''path'', JStr (path e)), (''location'', JStr ''body'')]"

text \<open>
  The validation chain of \<open>POST /register\<close>. Sanitizers (\<open>trim\<close>, \<open>normalizeEmail\<close>) write
  their result back to \<open>req.body\<close>; a validator sees the value the sanitizers before it
  have left. The result is the body after the chain and the errors in the chain's order.
\<close>

definition register_validation :: "lib \<Rightarrow> body \<Rightarrow> body \<times> validation_error list" where
  "register_validation L b =
     (let n = trim (to_string (name b));
          e = to_string (email b);
          p = to_string (password b)
      in (b\<lparr>name := Some n, email := Some (normalizeEmail L e)\<rparr>,
          (if isLength 2 n then []
           else [\<lparr>refused = JStr n, msg = ''Name must be at least 2 characters'', path = ''name''\<rparr>]) @
          (if isEmail L e then []
           else [\<lparr>refused = opt_json (email b), msg = ''Invalid email'', path = ''email''\<rparr>]) @
          (if isLength 6 p then []
           else [\<lparr>refused = opt_json (password b), msg = ''Password must be at least 6 characters'',
                  path = ''password''\<rparr>])))"

text \<open>
  What a handler leaves: the response, the database, and the calls it made to the
  database in order.
\<close>

datatype db_call = FindOne "string option" | Save document

record outcome =
  response :: response
  database :: db
  calls :: "db_call list"

definition id_json :: "document \<Rightarrow> jsval" where
  "id_json d = JNum (int (doc_id d))"

definition register :: "lib \<Rightarrow> env \<Rightarrow> db \<Rightarrow> body \<Rightarrow> outcome" where
  "register L E D b0 =
     (case register_validation L b0 of
        (b, errors) \<Rightarrow>
          if errors \<noteq> [] then
            \<lparr>response = \<lparr>status = JNum 400, body = JObj [(''errors'', JArr (map error_json errors))]\<rparr>,
             database = D, calls = []\<rparr>
          else
            (case findOne D (email b) of
               Inl e \<Rightarrow>
                 \<lparr>response = json_error 500 ''Server error'', database = D,
                  calls = [FindOne (email b)]\<rparr>
             | Inr (Some existingUser) \<Rightarrow>
                 \<lparr>response = json_error 400 ''User already exists'', database = D,
                  calls = [FindOne (email b)]\<rparr>
             | Inr None \<Rightarrow>
                 (let user = new_document userSchema (next_id D)
                               [(''name'', name b), (''email'', email b), (''password'', password b)]
                  in case save L E D user of
                       Inl e \<Rightarrow>
                         \<lparr>response = json_error 500 ''Server error'', database = D,
                          calls = [FindOne (email b), Save user]\<rparr>
                     | Inr (D', saved) \<Rightarrow>
                         (case jwt_sign L (JObj [(''id'', id_json saved)]) (JWT_SECRET E) of
                            None \<Rightarrow>
                              \<lparr>response = json_error 500 ''Server error'', database = D',
                               calls = [FindOne (email b), Save user]\<rparr>
                          | Some token \<Rightarrow>
                              \<lparr>response =
                                 \<lparr>status = JNum 201,
                                  body = JObj [(''token'', JStr token),
                                               (''user'', JObj [(''id'', id_json saved),
                                                               (''name'', opt_json (name b)),
                                                               (''email'', opt_json (email b))])]\<rparr>,
                               database = D', calls = [FindOne (email b), Save user]\<rparr>))))"

definition login :: "lib \<Rightarrow> env \<Rightarrow> db \<Rightarrow> body \<Rightarrow> outcome" where
  "login L E D b =
     (case findOne D (email b) of
        Inl e \<Rightarrow>
          \<lparr>response = json_error 500 ''Server error'', database = D, calls = [FindOne (email b)]\<rparr>
      | Inr None \<Rightarrow>
          \<lparr>response = json_error 400 ''Invalid credentials'', database = D,
           calls = [FindOne (email b)]\<rparr>
      | Inr (Some user) \<Rightarrow>
          (case comparePassword L user (password b) of
             Inl e \<Rightarrow>
               \<lparr>response = json_error 500 ''Server error'', database = D,
                calls = [FindOne (email b)]\<rparr>
           | Inr isMatch \<Rightarrow>
               if \<not> isMatch then
                 \<lparr>response = json_error 400 ''Invalid credentials'', database = D,
                  calls = [FindOne (email b)]\<rparr>
               else
                 (case jwt_sign L (JObj [(''id'', id_json user)]) (JWT_SECRET E) of
                    None \<Rightarrow>
                      \<lparr>response = json_error 500 ''Server error'', database = D,
                       calls = [FindOne (email b)]\<rparr>
                  | Some token \<Rightarrow>
                      \<lparr>response =
                         \<lparr>status = JNum 200,
                          body = JObj [(''token'', JStr token),
                                       (''user'', JObj [(''id'', id_json user),
                                                       (''name'', opt_json (field user ''name'')),
                                                       (''email'', opt_json (email b))])]\<rparr>,
                       database = D, calls = [FindOne (email b)]\<rparr>)))"

section \<open>Socket.IO: app.js, middleware/socketAuth.js, routes/socket.js\<close>

text \<open>
  Where an emit goes, as the code calls it: \<open>io.to(room)\<close>, \<open>socket.to(room)\<close> on the
  socket with the given id, \<open>socket.broadcast\<close> on the socket with the given id, and
  \<open>socket.emit\<close> on it. Which sockets that reaches is \<open>receives\<close> below.
\<close>

datatype target =
    Room jsval
  | RoomExcept jsval string
  | AllExcept string
  | Only string

text \<open>
  What a handler does to the outside: an emit (target, event name, payload), a
  \<open>console.log\<close> of its arguments, and the template string that \<open>join\<close> logs.
\<close>

datatype effect =
    Emit target string jsval
  | Log "jsval list"
  | LogJoined jsval

text \<open>
  The listeners the application registers, one constructor for each function; the
  disconnect listener of routes/socket.js closes over \<open>originalDisconnect\<close>.
\<close>

datatype handler =
    Join
  | SendMessage
  | Typing
  | StopTyping
  | SendNotification
  | Disconnect
  | NewPost
  | AddComment
  | UserOnline
  | PresenceDisconnect "handler option"

text \<open>
  A socket: its id, the properties \<open>userId\<close> and \<open>user\<close> the application sets on it, the
  rooms it is in, and its listeners in the order of registration.
\<close>

record socket =
  sid :: string
  userId :: jsval
  socket_user :: jsval
  rooms :: "jsval list"
  listeners :: "(string \<times> handler) list"

definition socket_on :: "string \<Rightarrow> handler \<Rightarrow> socket \<Rightarrow> socket" where
  "socket_on ev h s = s\<lparr>listeners := listeners s @ [(ev, h)]\<rparr>"

definition socket_listeners :: "socket \<Rightarrow> string \<Rightarrow> handler list" where
  "socket_listeners s ev = map snd (filter (\<lambda>l. fst l = ev) (listeners s))"

definition removeAllListeners :: "string \<Rightarrow> socket \<Rightarrow> socket" where
  "removeAllListeners ev s = s\<lparr>listeners := filter (\<lambda>l. fst l \<noteq> ev) (listeners s)\<rparr>"

text \<open>
  \<open>socket.join\<close>, \<open>io.to\<close> and \<open>socket.to\<close> of Socket.IO 4 take one room or an array of
  rooms, and read an array as the rooms it lists.
\<close>

fun spread :: "jsval \<Rightarrow> jsval list" where
  "spread (JArr rs) = rs"
| "spread r = [r]"

fun add_rooms :: "jsval list \<Rightarrow> jsval list \<Rightarrow> jsval list" where
  "add_rooms [] rs = rs"
| "add_rooms (x # xs) rs = add_rooms xs (if x \<in> set rs then rs else rs @ [x])"

definition socket_join :: "jsval \<Rightarrow> socket \<Rightarrow> socket" where
  "socket_join r s = s\<lparr>rooms := add_rooms (spread r) (rooms s)\<rparr>"

text \<open>
  \<open>socketAuth\<close>: \<open>tok\<close> is \<open>socket.handshake.auth.token\<close>, absent or a string. \<open>Inl\<close> is
  \<open>next(new Error("Authentication error"))\<close>, \<open>Inr\<close> is \<open>next()\<close> with the socket as the
  middleware leaves it.
\<close>

definition socketAuth :: "lib \<Rightarrow> env \<Rightarrow> string option \<Rightarrow> socket \<Rightarrow> string + socket" where
  "socketAuth L E tok s =
     (case tok of
        None \<Rightarrow> Inl ''Authentication error''
      | Some token \<Rightarrow>
          if token = [] then Inl ''Authentication error''
          else
            (case jwt_verify L token (JWT_SECRET E) of
               None \<Rightarrow> Inl ''Authentication error''
             | Some decoded \<Rightarrow>
                 (case get_prop decoded ''id'' of
                    Inl e \<Rightarrow> Inl ''Authentication error''
                  | Inr i \<Rightarrow> Inr (s\<lparr>userId := i, socket_user := decoded\<rparr>))))"

text \<open>
  Each listener run on the argument the event carries. A listener that throws leaves
  \<open>Inl\<close>; the two listeners of routes/socket.js with a \<open>try\<close> catch it and emit \<open>error\<close>
  to the socket. \<open>originalDisconnect()\<close> is called without an argument.
\<close>

fun run :: "lib \<Rightarrow> env \<Rightarrow> handler \<Rightarrow> jsval \<Rightarrow> socket \<Rightarrow> exn + (socket \<times> effect list)" where
  "run L E Join userId' s = Inr (socket_join userId' s, [LogJoined userId'])"
| "run L E SendMessage data s =
     (case get_prop data ''message'' of
        Inl e \<Rightarrow> Inl e
      | Inr message \<Rightarrow>
          (case get_prop data ''room'' of
             Inl e \<Rightarrow> Inl e
           | Inr room \<Rightarrow>
               (case get_prop data ''sender'' of
                  Inl e \<Rightarrow> Inl e
                | Inr sender \<Rightarrow>
                    Inr (s, [Emit (Room room) ''message''
                               (JObj [(''message'', message), (''sender'', sender),
                                      (''timestamp'', JNum (int (now E)))])]))))"
| "run L E Typing data s =
     (case get_prop data ''room'' of
        Inl e \<Rightarrow> Inl e
      | Inr room \<Rightarrow>
          (case get_prop data ''user'' of
             Inl e \<Rightarrow> Inl e
           | Inr u \<Rightarrow>
               Inr (s, [Emit (RoomExcept room (sid s)) ''userTyping''
                          (JObj [(''user'', u), (''isTyping'', JBool True)])])))"
| "run L E StopTyping data s =
     (case get_prop data ''room'' of
        Inl e \<Rightarrow> Inl e
      | Inr room \<Rightarrow>
          (case get_prop data ''user'' of
             Inl e \<Rightarrow> Inl e
           | Inr u \<Rightarrow>
               Inr (s, [Emit (RoomExcept room (sid s)) ''userTyping''
                          (JObj [(''user'', u), (''isTyping'', JBool False)])])))"
| "run L E SendNotification data s =
     (case get_prop data ''userId'' of
        Inl e \<Rightarrow> Inl e
      | Inr uid \<Rightarrow>
          (case get_prop data ''notification'' of
             Inl e \<Rightarrow> Inl e
           | Inr notification \<Rightarrow> Inr (s, [Emit (Room uid) ''notification'' notification])))"
| "run L E Disconnect reason s = Inr (s, [Log [JStr ''User disconnected:'', JStr (sid s)]])"
| "run L E NewPost postData s =
     (case post_create L postData of
        None \<Rightarrow>
          Inr (s, [Emit (Only (sid s)) ''error'' (JObj [(''message'', JStr ''Failed to create post'')])])
      | Some post \<Rightarrow> Inr (s, [Emit (AllExcept (sid s)) ''postCreated'' post]))"
| "run L E AddComment commentData s =
     (case get_prop commentData ''postId'' of
        Inl e \<Rightarrow>
          Inr (s, [Emit (Only (sid s)) ''error'' (JObj [(''message'', JStr ''Failed to add comment'')])])
      | Inr postId \<Rightarrow>
          (case get_prop commentData ''comment'' of
             Inl e \<Rightarrow>
               Inr (s, [Emit (Only (sid s)) ''error''
                          (JObj [(''message'', JStr ''Failed to add comment'')])])
           | Inr comment \<Rightarrow>
               (case get_prop commentData ''userId'' of
                  Inl e \<Rightarrow>
                    Inr (s, [Emit (Only (sid s)) ''error''
                               (JObj [(''message'', JStr ''Failed to add comment'')])])
                | Inr uid \<Rightarrow>
                    Inr (s, [Emit (RoomExcept postId (sid s)) ''commentAdded''
                               (JObj [(''postId'', postId), (''comment'', comment),
                                      (''userId'', uid),
                                      (''timestamp'', JNum (int (now E)))])]))))"
| "run L E UserOnline userId' s =
     Inr (s\<lparr>userId := userId'\<rparr>,
          [Emit (AllExcept (sid s)) ''userStatusChanged''
             (JObj [(''userId'', userId'), (''status'', JStr ''online'')])])"
| "run L E (PresenceDisconnect originalDisconnect) reason s =
     (let offline =
            (if truthy (userId s)
             then [Emit (AllExcept (sid s)) ''userStatusChanged''
                     (JObj [(''userId'', userId s), (''status'', JStr ''offline'')])]
             else [])
      in case originalDisconnect of
           None \<Rightarrow> Inr (s, offline)
         | Some h \<Rightarrow>
             (case run L E h JUndefined s of
                Inl e \<Rightarrow> Inl e
              | Inr (s', effects) \<Rightarrow> Inr (s', offline @ effects)))"

text \<open>
  \<open>module.exports = (socket) => ...\<close> of routes/socket.js: three listeners, then the
  first disconnect listener registered so far is kept aside, all of them are removed and
  the new one is registered.
\<close>

definition routes_socket :: "socket \<Rightarrow> socket" where
  "routes_socket s0 =
     (let s = socket_on ''userOnline'' UserOnline
                (socket_on ''addComment'' AddComment (socket_on ''newPost'' NewPost s0));
          originalDisconnect = (case socket_listeners s ''disconnect'' of
                                  [] \<Rightarrow> None
                                | h # hs \<Rightarrow> Some h)
      in socket_on ''disconnect'' (PresenceDisconnect originalDisconnect)
           (removeAllListeners ''disconnect'' s))"

text \<open>The \<open>io.on("connection", ...)\<close> callback of app.js.\<close>

definition on_connection :: "socket \<Rightarrow> socket \<times> effect list" where
  "on_connection s =
     (routes_socket
        (socket_on ''disconnect'' Disconnect
          (socket_on ''sendNotification'' SendNotification
            (socket_on ''stopTyping'' StopTyping
              (socket_on ''typing'' Typing
                (socket_on ''sendMessage'' SendMessage
                  (socket_on ''join'' Join s)))))),
      [Log [JStr ''User connected:'', JStr (sid s)]])"

text \<open>
  A client connects with the token of its handshake: \<open>io.use(socketAuth)\<close> runs first
  and the connection callback only when it lets the socket through. A new socket is in
  the room of its own id.
\<close>

definition connect :: "lib \<Rightarrow> env \<Rightarrow> string \<Rightarrow> string option \<Rightarrow> string + (socket \<times> effect list)" where
  "connect L E i tok =
     (case socketAuth L E tok
             \<lparr>sid = i, userId = JUndefined, socket_user = JUndefined, rooms = [JStr i],
              listeners = []\<rparr> of
        Inl e \<Rightarrow> Inl e
      | Inr s \<Rightarrow> Inr (on_connection s))"

text \<open>
  An event arrives: its listeners run in the order of registration, each on the socket
  the one before has left; the first that throws ends the run.
\<close>

fun run_all :: "lib \<Rightarrow> env \<Rightarrow> handler list \<Rightarrow> jsval \<Rightarrow> socket \<Rightarrow> exn + (socket \<times> effect list)" where
  "run_all L E [] arg s = Inr (s, [])"
| "run_all L E (h # hs) arg s =
     (case run L E h arg s of
        Inl e \<Rightarrow> Inl e
      | Inr (s1, effects1) \<Rightarrow>
          (case run_all L E hs arg s1 of
             Inl e \<Rightarrow> Inl e
           | Inr (s2, effects2) \<Rightarrow> Inr (s2, effects1 @ effects2)))"

definition receive :: "lib \<Rightarrow> env \<Rightarrow> socket \<Rightarrow> string \<times> jsval \<Rightarrow> exn + (socket \<times> effect list)" where
  "receive L E s ev = run_all L E (socket_listeners s (fst ev)) (snd ev) s"

text \<open>A socket's life after the connection: the events it receives, one after the other.\<close>

fun receive_all :: "lib \<Rightarrow> env \<Rightarrow> socket \<Rightarrow> (string \<times> jsval) list \<Rightarrow> exn + (socket \<times> effect list)" where
  "receive_all L E s [] = Inr (s, [])"
| "receive_all L E s (ev # evs) =
     (case receive L E s ev of
        Inl e \<Rightarrow> Inl e
      | Inr (s1, effects1) \<Rightarrow>
          (case receive_all L E s1 evs of
             Inl e \<Rightarrow> Inl e
           | Inr (s2, effects2) \<Rightarrow> Inr (s2, effects1 @ effects2)))"

text \<open>
  Who receives an emit, as the in-memory adapter of Socket.IO 4 decides it. Rooms are keys
  of a map: a string, a number, a boolean, \<open>null\<close> or \<open>undefined\<close> names the room that was
  joined under an equal value; an object or an array that an event carries is a new
  value and names a room nobody is in. An emit has the rooms it goes to (none: every
  socket) and the rooms it leaves out; a socket receives it when it is in one of the
  first and in none of the second. \<open>io.to(r)\<close> goes to the rooms of \<open>r\<close>;
  \<open>socket.to(r)\<close> goes to the rooms of \<open>r\<close> and leaves out the room named by the id of
  \<open>socket\<close>; \<open>socket.broadcast\<close> goes to every socket and leaves out that room;
  \<open>socket.emit\<close> goes to \<open>socket\<close>.
\<close>

fun is_primitive :: "jsval \<Rightarrow> bool" where
  "is_primitive (JArr xs) = False"
| "is_primitive (JObj kvs) = False"
| "is_primitive v = True"

definition in_room :: "socket \<Rightarrow> jsval \<Rightarrow> bool" where
  "in_room x r = (is_primitive r \<and> r \<in> set (rooms x))"

definition reached :: "jsval list \<Rightarrow> jsval list \<Rightarrow> socket \<Rightarrow> bool" where
  "reached to except x =
     ((to = [] \<or> list_ex (in_room x) to) \<and> \<not> list_ex (in_room x) except)"

fun receives :: "socket \<Rightarrow> target \<Rightarrow> bool" where
  "receives x (Room r) = reached (spread r) [] x"
| "receives x (RoomExcept r me) = reached (spread r) [JStr me] x"
| "receives x (AllExcept me) = reached [] [JStr me] x"
| "receives x (Only me) = (sid x = me)"

definition recipients :: "socket list \<Rightarrow> target \<Rightarrow> string list" where
  "recipients ss t = map sid (filter (\<lambda>x. receives x t) ss)"

section \<open>Example values\<close>

text \<open>
  One behaviour of the libraries, one environment, one database with one user and one
  connected socket, to evaluate the model on. The token \<open>tok7\<close> is the one token the
  example library signs and verifies, with the payload \<open>{id: 7, iat: 1700000000}\<close>; its
  hash is the salt string and the first 31 characters of the key, filled up with dots.
\<close>

definition example_lib :: lib where
  "example_lib =
     \<lparr>jwt_sign = (\<lambda>payload secret. if secret = Some ''s3cret'' then Some ''tok7'' else None),
      jwt_verify = (\<lambda>token secret.
         if token = ''tok7'' \<and> secret = Some ''s3cret''
         then Some (JObj [(''id'', JNum 7), (''iat'', JNum 1700000000)]) else None),
      bcrypt_genSalt = (\<lambda>rounds. ''$2a$10$abcdefghijklmnopqrstuv''),
      bcrypt_crypt = (\<lambda>key salt.
         salt @ take 31 (filter (\<lambda>c. c \<noteq> CHR 0x00) key @ replicate 31 (CHR ''.''))),
      bcrypt_valid_salt = (\<lambda>salt. take 4 salt = ''$2a$''),
      isEmail = (\<lambda>s. CHR ''@'' \<in> set s),
      normalizeEmail = (\<lambda>s. s),
      post_create = (\<lambda>d. case d of JObj kvs \<Rightarrow> Some d | _ \<Rightarrow> None)\<rparr>"

definition example_env :: env where
  "example_env = \<lparr>JWT_SECRET = Some ''s3cret'', now = 1700000000\<rparr>"

definition example_user :: document where
  "example_user =
     \<lparr>doc_id = 7,
      doc_fields = [(''name'', ''Existing User''), (''email'', ''test@example.com''),
                    (''password'', ''$2a$10$abcdefghijklmnopqrstuvpassword123....................'')],
      modified = [], createdAt = Some 1600000000, updatedAt = Some 1600000000\<rparr>"

definition example_db :: db where
  "example_db = \<lparr>users = [example_user], connected = True, next_id = 8\<rparr>"

text \<open>
  Two passwords of 73 characters that differ in the last one, and the user that is
  stored when the first of them is registered.
\<close>

definition example_long_password :: string where
  "example_long_password = ''aaaaaaaaaaaaaaaaaaaaaaaaaaaaaaaaaaaaaaaaaaaaaaaaaaaaaaaaaaaaaaaaaaaaaaaa1''"

definition example_other_password :: string where
  "example_other_password = ''aaaaaaaaaaaaaaaaaaaaaaaaaaaaaaaaaaaaaaaaaaaaaaaaaaaaaaaaaaaaaaaaaaaaaaaa2''"

definition example_long_user :: document where
  "example_long_user =
     \<lparr>doc_id = 8,
      doc_fields = [(''name'', ''Al''), (''email'', ''al@example.com''),
                    (''password'', ''$2a$10$abcdefghijklmnopqrstuvaaaaaaaaaaaaaaaaaaaaaaaaaaaaaaa'')],
      modified = [], createdAt = Some 1700000000, updatedAt = Some 1700000000\<rparr>"

text \<open>The listeners of a socket once the connection callback has run on a new socket.\<close>

definition app_listeners :: "(string \<times> handler) list" where
  "app_listeners =
     [(''join'', Join), (''sendMessage'', SendMessage), (''typing'', Typing),
      (''stopTyping'', StopTyping), (''sendNotification'', SendNotification),
      (''newPost'', NewPost), (''addComment'', AddComment), (''userOnline'', UserOnline),
      (''disconnect'', PresenceDisconnect (Some Disconnect))]"

definition example_socket :: socket where
  "example_socket =
     \<lparr>sid = ''sock1'', userId = JNum 7,
      socket_user = JObj [(''id'', JNum 7), (''iat'', JNum 1700000000)],
      rooms = [JStr ''sock1''], listeners = app_listeners\<rparr>"

text \<open>
  The example socket after it has joined the room \<open>lobby\<close>, and a second socket that is
  in the room \<open>den\<close>.
\<close>

definition example_lobby_socket :: socket where
  "example_lobby_socket = example_socket\<lparr>rooms := [JStr ''sock1'', JStr ''lobby'']\<rparr>"

definition example_den_socket :: socket where
  "example_den_socket =
     \<lparr>sid = ''sock2'', userId = JNum 9, socket_user = JObj [(''id'', JNum 9)],
      rooms = [JStr ''sock2'', JStr ''den''], listeners = app_listeners\<rparr>"

text \<open>What \<open>socket.userId\<close> is after the events \<open>evs\<close>, when it was \<open>u\<close> before them.\<close>

fun userId_after :: "jsval \<Rightarrow> (string \<times> jsval) list \<Rightarrow> jsval" where
  "userId_after u [] = u"
| "userId_after u (ev # evs) = userId_after (if fst ev = ''userOnline'' then snd ev else u) evs"

section \<open>Property lists and strings\<close>

lemma map_of_set_prop:
  "map_of (set_prop k v kvs) k' = (if k' = k then Some v else map_of kvs k')"
  by (induction kvs) auto

lemma obj_get_set_prop:
  "obj_get (set_prop k v kvs) k' = (if k' = k then v else obj_get kvs k')"
  by (simp add: obj_get_def map_of_set_prop)

lemma obj_get_simps:
  "obj_get [] k' = JUndefined"
  "obj_get ((k, v) # kvs) k' = (if k = k' then v else obj_get kvs k')"
  by (simp_all add: obj_get_def)

lemma dropWhile_rev_prefix:
  assumes "t = [] \<or> \<not> P (hd t)"
  shows "dropWhile P (rev (dropWhile P (rev t))) = rev (dropWhile P (rev t))"
proof (cases "dropWhile P (rev t) = []")
  case True
  then show ?thesis by (simp only: rev.simps dropWhile.simps)
next
  case False
  have "rev t = takeWhile P (rev t) @ dropWhile P (rev t)" by simp
  then have t: "t = rev (dropWhile P (rev t)) @ rev (takeWhile P (rev t))"
    by (metis rev_append rev_rev_ident)
  have ne: "rev (dropWhile P (rev t)) \<noteq> []" using False by simp
  then have "hd (rev (dropWhile P (rev t))) = hd t"
    using t by (metis hd_append2)
  moreover have "t \<noteq> []" using t ne by auto
  ultimately have "\<not> P (hd (rev (dropWhile P (rev t))))" using assms by simp
  then show ?thesis using ne by (simp add: dropWhile_eq_self_iff)
qed

text \<open>Trimming twice is trimming once: the setter of the schema leaves a trimmed name as it is.\<close>

lemma trim_idem: "trim (trim s) = trim s"
proof -
  have "dropWhile is_space s = [] \<or> \<not> is_space (hd (dropWhile is_space s))"
    by (metis hd_dropWhile)
  then show ?thesis
    by (simp add: trim_def dropWhile_rev_prefix)
qed


section \<open>The auth middleware\<close>

text \<open>
  Claim C1, as the code has it. The middleware answers 401 with a JSON body
  \<open>{error: ...}\<close> and does not call \<open>next\<close> when the Authorization header is absent, when
  nothing is left of it once its first \<open>"Bearer "\<close> is removed, when \<open>jwt.verify\<close> throws on
  the rest, or when the id of what it returns cannot be read. In every other case it
  calls \<open>next\<close> with \<open>req.user\<close> set to \<open>{id: decoded.id}\<close>: the id of the payload only.
\<close>

theorem auth_attaches_id:
  "((token_of req = None \<or> token_of req = Some [] \<or>
     (\<exists>t. token_of req = Some t \<and> jwt_verify L t (JWT_SECRET E) = None) \<or>
     (\<exists>t decoded e. token_of req = Some t \<and> jwt_verify L t (JWT_SECRET E) = Some decoded
         \<and> get_prop decoded ''id'' = Inl e))
      \<longrightarrow> (\<exists>m. auth L E req = Respond \<lparr>status = JNum 401, body = JObj [(''error'', JStr m)]\<rparr>))
   \<and> (\<forall>t decoded i. token_of req = Some t \<and> t \<noteq> [] \<and> jwt_verify L t (JWT_SECRET E) = Some decoded
          \<and> get_prop decoded ''id'' = Inr i
      \<longrightarrow> auth L E req = CallNext (req\<lparr>req_user := JObj [(''id'', i)]\<rparr>))"
  by (auto simp: auth_def json_error_def)

text \<open>
  The theorem of C1 on four requests: the token the library verifies, an empty bearer
  token, no header, and a token the library rejects.
\<close>

theorem auth_attaches_id_witness:
  "auth example_lib example_env \<lparr>authorization = Some ''Bearer tok7'', req_user = JNull\<rparr>
     = CallNext \<lparr>authorization = Some ''Bearer tok7'', req_user = JObj [(''id'', JNum 7)]\<rparr>
   \<and> (\<exists>m. auth example_lib example_env \<lparr>authorization = Some ''Bearer '', req_user = JNull\<rparr>
          = Respond \<lparr>status = JNum 401, body = JObj [(''error'', JStr m)]\<rparr>)
   \<and> (\<exists>m. auth example_lib example_env \<lparr>authorization = None, req_user = JNull\<rparr>
          = Respond \<lparr>status = JNum 401, body = JObj [(''error'', JStr m)]\<rparr>)
   \<and> (\<exists>m. auth example_lib example_env \<lparr>authorization = Some ''Bearer forged'', req_user = JNull\<rparr>
          = Respond \<lparr>status = JNum 401, body = JObj [(''error'', JStr m)]\<rparr>)"
  using auth_attaches_id [of "\<lparr>authorization = Some ''Bearer tok7'', req_user = JNull\<rparr>" example_lib example_env]
        auth_attaches_id [of "\<lparr>authorization = Some ''Bearer '', req_user = JNull\<rparr>" example_lib example_env]
        auth_attaches_id [of "\<lparr>authorization = None, req_user = JNull\<rparr>" example_lib example_env]
        auth_attaches_id [of "\<lparr>authorization = Some ''Bearer forged'', req_user = JNull\<rparr>" example_lib example_env]
  by (simp add: token_of_def example_lib_def example_env_def)

text \<open>
  C1 as the specification words it fails: the token verifies to the payload
  \<open>{id: 7, iat: 1700000000}\<close>, and \<open>req.user\<close> is \<open>{id: 7}\<close>, not the payload.
\<close>

theorem auth_payload_counterexample:
  "jwt_verify example_lib ''tok7'' (JWT_SECRET example_env)
     = Some (JObj [(''id'', JNum 7), (''iat'', JNum 1700000000)])
   \<and> auth example_lib example_env \<lparr>authorization = Some ''Bearer tok7'', req_user = JUndefined\<rparr>
     = CallNext \<lparr>authorization = Some ''Bearer tok7'', req_user = JObj [(''id'', JNum 7)]\<rparr>
   \<and> JObj [(''id'', JNum 7)] \<noteq> JObj [(''id'', JNum 7), (''iat'', JNum 1700000000)]"
  by (simp add: auth_def token_of_def example_lib_def example_env_def)

section \<open>The error handler\<close>

text \<open>
  Claim C2, as the code has it. An error named \<open>ValidationError\<close> whose \<open>errors\<close> can be
  listed gets status 400 and the list of their messages; an error not named
  \<open>ValidationError\<close> with code 11000 gets 400 and \<open>"Duplicate field value entered"\<close>;
  an error named \<open>CastError\<close> whose code is not 11000 gets 404 and \<open>"Resource not found"\<close>; every other error gets its own
  enumerable \<open>statusCode\<close> when that is truthy and 500 otherwise, with its message, or
  \<open>"Server Error"\<close> when it has none. Whenever the handler answers, the body is
  \<open>{success: false, error: ...}\<close>.
\<close>

theorem errorHandler_status:
  "(err_get err ''name'' = JStr ''ValidationError'' \<longrightarrow>
      (\<forall>vals msgs. object_values (err_get err ''errors'') = Inr vals \<and> map_message vals = Inr msgs \<longrightarrow>
         errorHandler err =
           Inr \<lparr>status = JNum 400,
                body = JObj [(''success'', JBool False), (''error'', JArr msgs)]\<rparr>))
   \<and> (err_get err ''name'' \<noteq> JStr ''ValidationError'' \<and> err_get err ''code'' = JNum 11000 \<longrightarrow>
         errorHandler err =
           Inr \<lparr>status = JNum 400,
                body = JObj [(''success'', JBool False),
                             (''error'', JStr ''Duplicate field value entered'')]\<rparr>)
   \<and> (err_get err ''name'' = JStr ''CastError'' \<and> err_get err ''code'' \<noteq> JNum 11000 \<longrightarrow>
         errorHandler err =
           Inr \<lparr>status = JNum 404,
                body = JObj [(''success'', JBool False), (''error'', JStr ''Resource not found'')]\<rparr>)
   \<and> (err_get err ''name'' \<noteq> JStr ''ValidationError'' \<and> err_get err ''name'' \<noteq> JStr ''CastError''
        \<and> err_get err ''code'' \<noteq> JNum 11000 \<longrightarrow>
         errorHandler err =
           Inr \<lparr>status = (if truthy (obj_get (enumerable err) ''statusCode'')
                          then obj_get (enumerable err) ''statusCode'' else JNum 500),
                body = JObj [(''success'', JBool False),
                             (''error'', if truthy (err_get err ''message'')
                                         then err_get err ''message'' else JStr ''Server Error'')]\<rparr>)
   \<and> (\<forall>r. errorHandler err = Inr r \<longrightarrow>
         (\<exists>m. body r = JObj [(''success'', JBool False), (''error'', m)] \<and> truthy m))"
  by (auto simp: errorHandler_def Let_def obj_get_set_prop obj_get_simps js_or_def
      split: sum.splits)

text \<open>
  The theorem of C2 on four errors: a Mongoose validation error with two failed paths, a
  duplicate-key error, a cast error, and a plain \<open>Error\<close>.
\<close>

theorem errorHandler_status_witness:
  "errorHandler
     \<lparr>enumerable = [(''errors'', JObj [(''name'', JObj [(''message'', JStr ''Path `name` is required.'')]),
                                         (''email'', JObj [(''message'', JStr ''Path `email` is required.'')])]),
                     (''name'', JStr ''ValidationError'')],
      hidden = [(''message'', JStr ''User validation failed'')]\<rparr>
     = Inr \<lparr>status = JNum 400,
            body = JObj [(''success'', JBool False),
                         (''error'', JArr [JStr ''Path `name` is required.'',
                                          JStr ''Path `email` is required.''])]\<rparr>
   \<and> errorHandler
       \<lparr>enumerable = [(''code'', JNum 11000)],
        hidden = [(''message'', JStr ''E11000 duplicate key error''), (''name'', JStr ''MongoServerError'')]\<rparr>
     = Inr \<lparr>status = JNum 400,
            body = JObj [(''success'', JBool False),
                         (''error'', JStr ''Duplicate field value entered'')]\<rparr>
   \<and> errorHandler
       \<lparr>enumerable = [(''name'', JStr ''CastError'')], hidden = [(''message'', JStr ''Test error'')]\<rparr>
     = Inr \<lparr>status = JNum 404,
            body = JObj [(''success'', JBool False), (''error'', JStr ''Resource not found'')]\<rparr>
   \<and> errorHandler
       \<lparr>enumerable = [], hidden = [(''message'', JStr ''boom''), (''name'', JStr ''Error'')]\<rparr>
     = Inr \<lparr>status = JNum 500,
            body = JObj [(''success'', JBool False), (''error'', JStr ''boom'')]\<rparr>"
  using
    errorHandler_status [of
      "\<lparr>enumerable = [(''errors'', JObj [(''name'', JObj [(''message'', JStr ''Path `name` is required.'')]),
                                          (''email'', JObj [(''message'', JStr ''Path `email` is required.'')])]),
                      (''name'', JStr ''ValidationError'')],
        hidden = [(''message'', JStr ''User validation failed'')]\<rparr>"]
    errorHandler_status [of
      "\<lparr>enumerable = [(''code'', JNum 11000)],
        hidden = [(''message'', JStr ''E11000 duplicate key error''), (''name'', JStr ''MongoServerError'')]\<rparr>"]
    errorHandler_status [of
      "\<lparr>enumerable = [(''name'', JStr ''CastError'')], hidden = [(''message'', JStr ''Test error'')]\<rparr>"]
    errorHandler_status [of
      "\<lparr>enumerable = [], hidden = [(''message'', JStr ''boom''), (''name'', JStr ''Error'')]\<rparr>"]
  by (simp add: err_get_def obj_get_simps)

text \<open>
  C2 as the specification words it fails. An error that is none of the three kinds and
  carries \<open>statusCode: 403\<close> is answered with 403, not 500; a \<open>CastError\<close> with code 11000 is
  answered with 400, not 404; a \<open>ValidationError\<close> without \<open>errors\<close> makes the handler throw,
  so that it answers nothing.
\<close>

theorem errorHandler_counterexample:
  "errorHandler \<lparr>enumerable = [(''statusCode'', JNum 403)],
                 hidden = [(''message'', JStr ''Forbidden''), (''name'', JStr ''Error'')]\<rparr>
     = Inr \<lparr>status = JNum 403,
            body = JObj [(''success'', JBool False), (''error'', JStr ''Forbidden'')]\<rparr>
   \<and> errorHandler \<lparr>enumerable = [(''name'', JStr ''CastError''), (''code'', JNum 11000)],
                   hidden = [(''message'', JStr ''Cast to ObjectId failed'')]\<rparr>
     = Inr \<lparr>status = JNum 400,
            body = JObj [(''success'', JBool False),
                         (''error'', JStr ''Duplicate field value entered'')]\<rparr>
   \<and> errorHandler \<lparr>enumerable = [(''name'', JStr ''ValidationError'')],
                   hidden = [(''message'', JStr ''Validation failed'')]\<rparr>
     = Inl TypeError"
  by (simp add: errorHandler_def err_get_def obj_get_def js_or_def)


section \<open>Registration and login\<close>

lemma findOne_found:
  "connected D \<Longrightarrow> \<exists>u \<in> set (users D). field u ''email'' = Some a
     \<Longrightarrow> \<exists>u. findOne D (Some a) = Inr (Some u)"
  by (cases "find (\<lambda>u. field u ''email'' = Some a) (users D)")
     (auto simp: findOne_def find_None_iff)

lemma findOne_none:
  "connected D \<Longrightarrow> \<forall>u \<in> set (users D). field u ''email'' \<noteq> Some a \<Longrightarrow> findOne D (Some a) = Inr None"
  by (simp add: findOne_def find_None_iff)

lemma example_validation:
  "register_validation example_lib
     \<lparr>name = Some ''Test User'', email = Some ''test@example.com'', password = Some ''password123''\<rparr>
   = (\<lparr>name = Some ''Test User'', email = Some ''test@example.com'', password = Some ''password123''\<rparr>, [])"
  by (simp add: register_validation_def example_lib_def trim_def is_space_def isLength_def
      to_string_def Let_def)

text \<open>
  Claim C3, as the code has it. A registration request that passes the validation chain,
  whose email as \<open>normalizeEmail\<close> leaves it is the email of a stored user, on a database
  that answers, is answered 400 with \<open>{error: "User already exists"}\<close>; the database is
  left as it was, and the one call made to it is the lookup.
\<close>

theorem register_duplicate:
  "snd (register_validation L b) = [] \<and> connected D
     \<and> (\<exists>u \<in> set (users D). field u ''email'' = Some (normalizeEmail L (to_string (email b))))
   \<longrightarrow> response (register L E D b) = \<lparr>status = JNum 400, body = JObj [(''error'', JStr ''User already exists'')]\<rparr>
       \<and> database (register L E D b) = D
       \<and> calls (register L E D b) = [FindOne (Some (normalizeEmail L (to_string (email b))))]"
proof (intro impI, elim conjE)
  assume v: "snd (register_validation L b) = []" and c: "connected D"
    and ex: "\<exists>u \<in> set (users D). field u ''email'' = Some (normalizeEmail L (to_string (email b)))"
  obtain b' where b': "register_validation L b = (b', [])"
    using v by (cases "register_validation L b") auto
  have e: "email b' = Some (normalizeEmail L (to_string (email b)))"
    using b' by (auto simp: register_validation_def Let_def)
  obtain u where "findOne D (email b') = Inr (Some u)"
    using findOne_found [OF c ex] e by auto
  then show "response (register L E D b) = \<lparr>status = JNum 400, body = JObj [(''error'', JStr ''User already exists'')]\<rparr>
       \<and> database (register L E D b) = D
       \<and> calls (register L E D b) = [FindOne (Some (normalizeEmail L (to_string (email b))))]"
    using b' e by (simp add: register_def json_error_def)
qed

text \<open>
  The theorem of C3 on the request of tests/auth.test.js: the email of the stored user,
  with a name and a password that pass.
\<close>

theorem register_duplicate_witness:
  "snd (register_validation example_lib
          \<lparr>name = Some ''Test User'', email = Some ''test@example.com'', password = Some ''password123''\<rparr>) = []
   \<and> connected example_db
   \<and> example_user \<in> set (users example_db)
   \<and> field example_user ''email'' = Some ''test@example.com''
   \<and> response (register example_lib example_env example_db
          \<lparr>name = Some ''Test User'', email = Some ''test@example.com'', password = Some ''password123''\<rparr>)
       = \<lparr>status = JNum 400, body = JObj [(''error'', JStr ''User already exists'')]\<rparr>
   \<and> database (register example_lib example_env example_db
          \<lparr>name = Some ''Test User'', email = Some ''test@example.com'', password = Some ''password123''\<rparr>)
       = example_db
   \<and> calls (register example_lib example_env example_db
          \<lparr>name = Some ''Test User'', email = Some ''test@example.com'', password = Some ''password123''\<rparr>)
       = [FindOne (Some ''test@example.com'')]"
proof -
  have n: "normalizeEmail example_lib ''test@example.com'' = ''test@example.com''"
    by (simp add: example_lib_def)
  have h: "connected example_db" "example_user \<in> set (users example_db)"
    "field example_user ''email'' = Some ''test@example.com''"
    by (simp_all add: example_db_def example_user_def field_def)
  show ?thesis
    using h n register_duplicate [of example_lib
        "\<lparr>name = Some ''Test User'', email = Some ''test@example.com'', password = Some ''password123''\<rparr>"
        example_db example_env]
    by (auto simp: example_validation to_string_def)
qed

text \<open>
  C3 as the specification words it fails: the email of the request is the email of the
  stored user, the name is one character long, and the answer is the errors of the
  validation chain, not \<open>"User already exists"\<close>.
\<close>

theorem register_duplicate_counterexample:
  "field example_user ''email'' = Some ''test@example.com''
   \<and> example_user \<in> set (users example_db)
   \<and> register example_lib example_env example_db
       \<lparr>name = Some ''T'', email = Some ''test@example.com'', password = Some ''password123''\<rparr>
     = \<lparr>response =
          \<lparr>status = JNum 400,
           body = JObj [(''errors'',
                    JArr [JObj [(''type'', JStr ''field''), (''value'', JStr ''T''),
                                (''msg'', JStr ''Name must be at least 2 characters''),
                                (''path'', JStr ''name''), (''location'', JStr ''body'')]])]\<rparr>,
        database = example_db, calls = []\<rparr>"
  by (simp add: register_def register_validation_def example_lib_def example_db_def
      example_user_def trim_def is_space_def isLength_def to_string_def error_json_def field_def
      opt_json_def Let_def)

text \<open>
  Claim C8. A registration request whose name has fewer than 2 characters once trimmed,
  whose email \<open>isEmail\<close> rejects, or whose password has fewer than 6 characters is answered
  400 with \<open>{errors: [...]}\<close>, the errors of the validation chain, of which there is at
  least one; the handler calls the database not once and leaves it as it was.
\<close>

theorem register_invalid:
  "length (trim (to_string (name b))) < 2 \<or> \<not> isEmail L (to_string (email b))
     \<or> length (to_string (password b)) < 6
   \<longrightarrow> snd (register_validation L b) \<noteq> []
       \<and> response (register L E D b) =
           \<lparr>status = JNum 400,
            body = JObj [(''errors'', JArr (map error_json (snd (register_validation L b))))]\<rparr>
       \<and> database (register L E D b) = D
       \<and> calls (register L E D b) = []"
  by (auto simp: register_def register_validation_def Let_def isLength_def)

text \<open>The theorem of C8 on a request with a password of five characters and no name.\<close>

theorem register_invalid_witness:
  "length (to_string (password \<lparr>name = None, email = Some ''a@b.c'', password = Some ''12345''\<rparr>)) < 6
   \<and> response (register example_lib example_env example_db
          \<lparr>name = None, email = Some ''a@b.c'', password = Some ''12345''\<rparr>) =
       \<lparr>status = JNum 400,
        body = JObj [(''errors'',
                 JArr [JObj [(''type'', JStr ''field''), (''value'', JStr []),
                             (''msg'', JStr ''Name must be at least 2 characters''),
                             (''path'', JStr ''name''), (''location'', JStr ''body'')],
                       JObj [(''type'', JStr ''field''), (''value'', JStr ''12345''),
                             (''msg'', JStr ''Password must be at least 6 characters''),
                             (''path'', JStr ''password''), (''location'', JStr ''body'')]])]\<rparr>
   \<and> database (register example_lib example_env example_db
          \<lparr>name = None, email = Some ''a@b.c'', password = Some ''12345''\<rparr>) = example_db
   \<and> calls (register example_lib example_env example_db
          \<lparr>name = None, email = Some ''a@b.c'', password = Some ''12345''\<rparr>) = []"
  using register_invalid [of "\<lparr>name = None, email = Some ''a@b.c'', password = Some ''12345''\<rparr>"
      example_lib example_env example_db]
  by (simp add: to_string_def register_validation_def example_lib_def trim_def isLength_def
      error_json_def opt_json_def Let_def)

text \<open>
  Claim C9, as the code has it. A login whose email finds no user, and a login whose
  email finds a user and whose password is a string that \<open>comparePassword\<close> does not
  match, get the same response: status 400 with \<open>{error: "Invalid credentials"}\<close>.
\<close>

theorem login_indistinguishable:
  "findOne D (email b1) = Inr None
     \<and> findOne D (email b2) = Inr (Some u) \<and> password b2 = Some p
     \<and> comparePassword L u (Some p) = Inr False
   \<longrightarrow> response (login L E D b1) = response (login L E D b2)
       \<and> response (login L E D b1) = \<lparr>status = JNum 400, body = JObj [(''error'', JStr ''Invalid credentials'')]\<rparr>"
  by (simp add: login_def json_error_def)

text \<open>
  The theorem of C9 on two logins: an email that is not stored, and the stored email with
  a wrong password.
\<close>

theorem login_indistinguishable_witness:
  "findOne example_db (email \<lparr>name = None, email = Some ''nobody@example.com'', password = Some ''password123''\<rparr>)
     = Inr None
   \<and> findOne example_db (email \<lparr>name = None, email = Some ''test@example.com'', password = Some ''wrong-password''\<rparr>)
     = Inr (Some example_user)
   \<and> comparePassword example_lib example_user (Some ''wrong-password'') = Inr False
   \<and> response (login example_lib example_env example_db
        \<lparr>name = None, email = Some ''nobody@example.com'', password = Some ''password123''\<rparr>)
     = response (login example_lib example_env example_db
        \<lparr>name = None, email = Some ''test@example.com'', password = Some ''wrong-password''\<rparr>)
   \<and> response (login example_lib example_env example_db
        \<lparr>name = None, email = Some ''nobody@example.com'', password = Some ''password123''\<rparr>)
     = \<lparr>status = JNum 400, body = JObj [(''error'', JStr ''Invalid credentials'')]\<rparr>"
proof -
  have h: "findOne example_db (Some ''nobody@example.com'') = Inr None"
    "findOne example_db (Some ''test@example.com'') = Inr (Some example_user)"
    "comparePassword example_lib example_user (Some ''wrong-password'') = Inr False"
    by (simp_all add: findOne_def example_db_def example_user_def field_def comparePassword_def
        bcrypt_compare_def bcrypt_key_def utf8_def utf8_char_def example_lib_def)
  show ?thesis
    using h login_indistinguishable [of example_db
        "\<lparr>name = None, email = Some ''nobody@example.com'', password = Some ''password123''\<rparr>"
        "\<lparr>name = None, email = Some ''test@example.com'', password = Some ''wrong-password''\<rparr>"
        example_user "''wrong-password''" example_lib example_env]
    by auto
qed

text \<open>
  C9 as the specification words it fails. Two logins that carry no password: the one
  whose email is not stored is answered 400 \<open>"Invalid credentials"\<close>, the one whose email
  is stored is answered 500 \<open>"Server error"\<close>, because \<open>bcrypt.compare\<close> rejects a password
  that is not a string and the handler catches it. The two causes are told apart.
\<close>

theorem login_password_counterexample:
  "findOne example_db (Some ''nobody@example.com'') = Inr None
   \<and> findOne example_db (Some ''test@example.com'') = Inr (Some example_user)
   \<and> response (login example_lib example_env example_db
        \<lparr>name = None, email = Some ''nobody@example.com'', password = None\<rparr>)
     = \<lparr>status = JNum 400, body = JObj [(''error'', JStr ''Invalid credentials'')]\<rparr>
   \<and> response (login example_lib example_env example_db
        \<lparr>name = None, email = Some ''test@example.com'', password = None\<rparr>)
     = \<lparr>status = JNum 500, body = JObj [(''error'', JStr ''Server error'')]\<rparr>"
  by (simp add: login_def findOne_def example_db_def example_user_def field_def
      comparePassword_def json_error_def)


section \<open>The schemas\<close>

lemma example_hash:
  "bcrypt_hash example_lib ''password123'' 10
     = ''$2a$10$abcdefghijklmnopqrstuvpassword123....................''"
  by (simp add: bcrypt_hash_def bcrypt_key_def utf8_def utf8_char_def example_lib_def
      numeral_eq_Suc)

lemma given_user:
  "given userSchema [(''name'', n), (''email'', e), (''password'', p)] =
     (case n of None \<Rightarrow> [] | Some n' \<Rightarrow> [(''name'', trim n')]) @
     (case e of None \<Rightarrow> [] | Some e' \<Rightarrow> [(''email'', e')]) @
     (case p of None \<Rightarrow> [] | Some p' \<Rightarrow> [(''password'', p')])"
  by (simp add: userSchema_def apply_setters_def has_option_def split: option.splits)

lemma required_user: "paths_with userSchema (Required True) = [''name'', ''email'', ''password'']"
  by (simp add: paths_with_def userSchema_def)

lemma unique_user: "paths_with userSchema (Unique True) = [''email'']"
  by (simp add: paths_with_def userSchema_def)

lemma timestamps_user: "timestamps userSchema"
  by (simp add: userSchema_def)

lemma paths_user: "fst ` set (paths userSchema) = {''name'', ''email'', ''password''}"
  by (simp add: userSchema_def)

lemma field_new:
  "field (new_document userSchema i [(''name'', n), (''email'', e), (''password'', p)]) k =
     (if k = ''name'' then map_option trim n else if k = ''email'' then e
      else if k = ''password'' then p else None)"
  by (cases n; cases e; cases p)
     (simp_all add: field_def new_document_def userSchema_def apply_setters_def has_option_def)

lemma modified_new:
  "modified (new_document userSchema i [(''name'', n), (''email'', e), (''password'', p)])
     = [''name'', ''email'', ''password'']"
  by (simp add: new_document_def userSchema_def)

lemma field_update:
  "field (d\<lparr>doc_fields := set_prop k v (doc_fields d)\<rparr>) k' = (if k' = k then Some v else field d k')"
  "field (d\<lparr>createdAt := c\<rparr>) k' = field d k'"
  "field (d\<lparr>updatedAt := c\<rparr>) k' = field d k'"
  "field (d\<lparr>modified := m\<rparr>) k' = field d k'"
  by (simp_all add: field_def map_of_set_prop)

text \<open>
  What the User schema lets through: a new document is saved exactly when its name is
  not empty once trimmed, its email and its password are not empty, and its email is not
  stored yet.
\<close>

lemma save_accepts:
  assumes "connected D"
  shows "(\<exists>r. save L E D (new_document userSchema i [(''name'', n), (''email'', e), (''password'', p)]) = Inr r)
        = (\<exists>n' e' p'. n = Some n' \<and> e = Some e' \<and> p = Some p' \<and> trim n' \<noteq> [] \<and> e' \<noteq> [] \<and> p' \<noteq> []
             \<and> (\<forall>u \<in> set (users D). field u ''email'' \<noteq> Some e'))"
proof -
  define d where "d = new_document userSchema i [(''name'', n), (''email'', e), (''password'', p)]"
  have f: "field d ''name'' = map_option trim n" "field d ''email'' = e" "field d ''password'' = p"
    by (simp_all add: d_def field_new)
  have m: "''password'' \<in> set (modified d)"
    by (simp add: d_def modified_new)
  show ?thesis
    unfolding d_def [symmetric] using assms f m
    by (cases n; cases e; cases p)
       (auto simp: save_def validate_def required_user pre_save_def unique_user timestamps_user
          field_update list_ex_iff Let_def split: list.splits if_splits)
qed

text \<open>What is stored then: the trimmed name, the email, the hash of the password, the time.\<close>

lemma save_new_user:
  assumes "connected D" and "trim n \<noteq> []" and "e \<noteq> []" and "p \<noteq> []"
    and "\<forall>u \<in> set (users D). field u ''email'' \<noteq> Some e"
  shows "save L E D (new_document userSchema i [(''name'', Some n), (''email'', Some e), (''password'', Some p)])
    = Inr (D\<lparr>users := users D @
                 [\<lparr>doc_id = i,
                   doc_fields = [(''name'', trim n), (''email'', e), (''password'', bcrypt_hash L p 10)],
                   modified = [], createdAt = Some (now E), updatedAt = Some (now E)\<rparr>],
              next_id := Suc (next_id D)\<rparr>,
           \<lparr>doc_id = i,
            doc_fields = [(''name'', trim n), (''email'', e), (''password'', bcrypt_hash L p 10)],
            modified = [], createdAt = Some (now E), updatedAt = Some (now E)\<rparr>)"
  using assms
  by (simp add: save_def new_document_def given_user validate_def required_user unique_user
      timestamps_user paths_user pre_save_def field_def list_ex_iff Let_def del: given.simps)

text \<open>
  Claim C5, as the code has it. The application declares two models, User and Post.
  In User the paths \<open>name\<close>, \<open>email\<close> and \<open>password\<close> are required, \<open>email\<close> is unique, and
  \<open>name\<close> is trimmed; in Post the paths \<open>title\<close>, \<open>content\<close> and \<open>author\<close> are required and
  \<open>author\<close> is an ObjectId that refers to User; both schemas add timestamps; no other
  option is declared. On a database that answers, a new User is saved exactly when its
  name is not empty once trimmed, its email and password are not empty and its email is
  not stored yet, and what is stored is the trimmed name, the email, the hash the
  pre-save hook makes of the password, and the two timestamps.
\<close>

theorem schema_constraints:
  "map fst models = [''User'', ''Post'']
   \<and> map_of models ''User'' = Some userSchema \<and> map_of models ''Post'' = Some postSchema
   \<and> paths userSchema =
        [(''name'', [Type TString, Required True, Trim True]),
         (''email'', [Type TString, Required True, Unique True]),
         (''password'', [Type TString, Required True])]
   \<and> paths_with userSchema (Required True) = [''name'', ''email'', ''password'']
   \<and> paths_with userSchema (Unique True) = [''email'']
   \<and> paths_with userSchema (Trim True) = [''name'']
   \<and> timestamps userSchema
   \<and> paths postSchema =
        [(''title'', [Type TString, Required True]),
         (''content'', [Type TString, Required True]),
         (''author'', [Type TObjectId, Ref ''User'', Required True])]
   \<and> paths_with postSchema (Required True) = [''title'', ''content'', ''author'']
   \<and> paths_with postSchema (Unique True) = []
   \<and> paths_with postSchema (Trim True) = []
   \<and> timestamps postSchema
   \<and> (connected D \<longrightarrow>
        ((\<exists>r. save L E D (new_document userSchema i [(''name'', n), (''email'', e), (''password'', p)]) = Inr r)
         = (\<exists>n' e' p'. n = Some n' \<and> e = Some e' \<and> p = Some p' \<and> trim n' \<noteq> [] \<and> e' \<noteq> [] \<and> p' \<noteq> []
              \<and> (\<forall>u \<in> set (users D). field u ''email'' \<noteq> Some e')))
        \<and> (\<forall>D' d. save L E D (new_document userSchema i [(''name'', n), (''email'', e), (''password'', p)])
                     = Inr (D', d) \<longrightarrow>
               users D' = users D @ [d]
               \<and> field d ''name'' = map_option trim n \<and> field d ''email'' = e
               \<and> field d ''password'' = map_option (\<lambda>x. bcrypt_hash L x 10) p
               \<and> createdAt d = Some (now E) \<and> updatedAt d = Some (now E)))"
proof -
  have decl:
    "map fst models = [''User'', ''Post'']"
    "map_of models ''User'' = Some userSchema" "map_of models ''Post'' = Some postSchema"
    "paths userSchema =
        [(''name'', [Type TString, Required True, Trim True]),
         (''email'', [Type TString, Required True, Unique True]),
         (''password'', [Type TString, Required True])]"
    "paths_with userSchema (Trim True) = [''name'']"
    "paths postSchema =
        [(''title'', [Type TString, Required True]),
         (''content'', [Type TString, Required True]),
         (''author'', [Type TObjectId, Ref ''User'', Required True])]"
    "paths_with postSchema (Required True) = [''title'', ''content'', ''author'']"
    "paths_with postSchema (Unique True) = []"
    "paths_with postSchema (Trim True) = []"
    "timestamps postSchema"
    by (simp_all add: models_def paths_with_def userSchema_def postSchema_def)
  have stored: "users D' = users D @ [d]
               \<and> field d ''name'' = map_option trim n \<and> field d ''email'' = e
               \<and> field d ''password'' = map_option (\<lambda>x. bcrypt_hash L x 10) p
               \<and> createdAt d = Some (now E) \<and> updatedAt d = Some (now E)"
    if c: "connected D"
      and s: "save L E D (new_document userSchema i [(''name'', n), (''email'', e), (''password'', p)])
                 = Inr (D', d)" for D' d
  proof -
    from save_accepts [OF c, of L E i n e p] s
    obtain n' e' p' where v: "n = Some n'" "e = Some e'" "p = Some p'"
      and ok: "trim n' \<noteq> []" "e' \<noteq> []" "p' \<noteq> []" "\<forall>u \<in> set (users D). field u ''email'' \<noteq> Some e'"
      by blast
    show ?thesis
      using s save_new_user [OF c ok, of L E i] v by (auto simp: field_def)
  qed
  show ?thesis
    using decl required_user unique_user timestamps_user save_accepts stored
    by (intro conjI impI allI) (simp_all only:)
qed

text \<open>
  The theorem of C5 on the example database and a new user whose name has a space on
  each side.
\<close>

theorem schema_constraints_witness:
  "connected example_db
   \<and> (\<exists>r. save example_lib example_env example_db
            (new_document userSchema 8
               [(''name'', Some '' Al ''), (''email'', Some ''al@example.com''),
                (''password'', Some ''password123'')]) = Inr r)
   \<and> paths_with userSchema (Trim True) = [''name'']
   \<and> paths_with postSchema (Required True) = [''title'', ''content'', ''author'']"
proof -
  have c: "connected example_db" by (simp add: example_db_def)
  have t: "trim '' Al '' \<noteq> []" by (simp add: trim_def is_space_def)
  have f: "\<forall>u \<in> set (users example_db). field u ''email'' \<noteq> Some ''al@example.com''"
    by (simp add: example_db_def example_user_def field_def)
  show ?thesis
    using c t f schema_constraints [of example_db example_lib example_env 8 "Some '' Al ''"
        "Some ''al@example.com''" "Some ''password123''"]
    by auto
qed

text \<open>
  C5 as the specification words it fails: the schema enforces more than the three
  required paths and the unique email. A new user with the name \<open>" Al "\<close> is stored with
  the name \<open>"Al"\<close> and two timestamps, and a user whose name is two spaces is refused
  although the name is there.
\<close>

theorem schema_counterexample:
  "save example_lib example_env example_db
     (new_document userSchema 8
        [(''name'', Some '' Al ''), (''email'', Some ''al@example.com''), (''password'', Some ''password123'')])
   = Inr (\<lparr>users = [example_user,
                     \<lparr>doc_id = 8,
                      doc_fields = [(''name'', ''Al''), (''email'', ''al@example.com''),
                                    (''password'', ''$2a$10$abcdefghijklmnopqrstuvpassword123....................'')],
                      modified = [], createdAt = Some 1700000000, updatedAt = Some 1700000000\<rparr>],
           connected = True, next_id = 9\<rparr>,
          \<lparr>doc_id = 8,
           doc_fields = [(''name'', ''Al''), (''email'', ''al@example.com''),
                         (''password'', ''$2a$10$abcdefghijklmnopqrstuvpassword123....................'')],
           modified = [], createdAt = Some 1700000000, updatedAt = Some 1700000000\<rparr>)
   \<and> save example_lib example_env example_db
     (new_document userSchema 8
        [(''name'', Some ''  ''), (''email'', Some ''al@example.com''), (''password'', Some ''password123'')])
   = Inl (ValidationFailed [''name''])"
  by (simp add: new_document_def userSchema_def save_def validate_def paths_with_def pre_save_def
      apply_setters_def has_option_def field_def example_hash example_env_def example_db_def
      example_user_def trim_def is_space_def)


section \<open>The hash of the password\<close>

lemma save_connected:
  "save L E D d = Inr r \<Longrightarrow> connected D"
  by (cases "pre_save L d") (auto simp: save_def Let_def split: if_splits)

lemma save_stores_hash:
  assumes "save L E D (new_document userSchema i [(''name'', n), (''email'', e), (''password'', Some p)])
             = Inr (D', u)"
  shows "u \<in> set (users D') \<and> field u ''password'' = Some (bcrypt_hash L p 10)"
proof -
  have c: "connected D" using assms by (rule save_connected)
  from save_accepts [OF c, of L E i n e "Some p"] assms
  obtain n' e' where v: "n = Some n'" "e = Some e'"
    and ok: "trim n' \<noteq> []" "e' \<noteq> []" "p \<noteq> []" "\<forall>u \<in> set (users D). field u ''email'' \<noteq> Some e'"
    by auto
  show ?thesis
    using assms save_new_user [OF c ok, of L E i] v by (auto simp: field_def)
qed

lemma compare_same_key:
  "bcrypt_key c = bcrypt_key p \<Longrightarrow> comparePassword L u (Some c) = comparePassword L u (Some p)"
  by (simp add: comparePassword_def bcrypt_compare_def split: option.splits)

lemma compare_hash:
  assumes "field u ''password'' = Some (bcrypt_hash L p 10)"
    and "length (bcrypt_hash L p 10) = 60" and "take 29 (bcrypt_hash L p 10) = bcrypt_genSalt L 10"
    and "bcrypt_valid_salt L (bcrypt_genSalt L 10)"
  shows "comparePassword L u (Some c) =
           Inr (bcrypt_crypt L (bcrypt_key c) (bcrypt_genSalt L 10)
                = bcrypt_crypt L (bcrypt_key p) (bcrypt_genSalt L 10))"
  using assms by (simp add: comparePassword_def bcrypt_compare_def) (simp add: bcrypt_hash_def)

text \<open>
  Claim C4, as far as it holds. The pre-save hook of the User schema leaves a document
  whose password is not modified as it is, and replaces a modified password by
  \<open>bcrypt.hash(password, 10)\<close>, leaving every other path; a new user that \<open>save\<close> stores
  has that hash as its password. On a user with that hash, \<open>comparePassword\<close> rejects a
  candidate that is not a string, and answers two candidates alike when bcrypt derives
  the same key from them: the first 72 bytes of the UTF-8 encoding followed by NUL.
  When the hash is well formed (60 characters, the salt string of 29 first, a salt the
  library reads), \<open>comparePassword\<close> is true exactly for the candidates whose key hashes,
  with the stored salt, to the stored hash, the original password among them; and the
  hash is not the password unless the password is itself 60 characters long.
\<close>

theorem password_hashed:
  "(''password'' \<notin> set (modified d) \<longrightarrow> pre_save L d = Inr d)
   \<and> (''password'' \<in> set (modified d) \<and> field d ''password'' = Some p \<longrightarrow>
        (\<exists>d'. pre_save L d = Inr d' \<and> field d' ''password'' = Some (bcrypt_hash L p 10)
           \<and> (\<forall>k. k \<noteq> ''password'' \<longrightarrow> field d' k = field d k)))
   \<and> (\<forall>D' u. save L E D (new_document userSchema i
                    [(''name'', n), (''email'', e), (''password'', Some p)]) = Inr (D', u) \<longrightarrow>
          u \<in> set (users D') \<and> field u ''password'' = Some (bcrypt_hash L p 10))
   \<and> (field v ''password'' = Some (bcrypt_hash L p 10) \<longrightarrow>
        comparePassword L v None = Inl IllegalArguments
        \<and> (\<forall>c. bcrypt_key c = bcrypt_key p \<longrightarrow>
               comparePassword L v (Some c) = comparePassword L v (Some p))
        \<and> (length (bcrypt_hash L p 10) = 60 \<and> take 29 (bcrypt_hash L p 10) = bcrypt_genSalt L 10
             \<and> bcrypt_valid_salt L (bcrypt_genSalt L 10) \<longrightarrow>
             comparePassword L v (Some p) = Inr True
             \<and> (\<forall>c. comparePassword L v (Some c) =
                      Inr (bcrypt_crypt L (bcrypt_key c) (bcrypt_genSalt L 10)
                           = bcrypt_crypt L (bcrypt_key p) (bcrypt_genSalt L 10)))
             \<and> (length p \<noteq> 60 \<longrightarrow> bcrypt_hash L p 10 \<noteq> p)))"
proof (intro conjI impI allI)
  show "pre_save L d = Inr d" if "''password'' \<notin> set (modified d)"
    using that by (simp add: pre_save_def)
  show "\<exists>d'. pre_save L d = Inr d' \<and> field d' ''password'' = Some (bcrypt_hash L p 10)
           \<and> (\<forall>k. k \<noteq> ''password'' \<longrightarrow> field d' k = field d k)"
    if "''password'' \<in> set (modified d) \<and> field d ''password'' = Some p"
    using that by (simp add: pre_save_def field_update)
  show "u \<in> set (users D')" and "field u ''password'' = Some (bcrypt_hash L p 10)"
    if "save L E D (new_document userSchema i
          [(''name'', n), (''email'', e), (''password'', Some p)]) = Inr (D', u)" for D' u
    using save_stores_hash [OF that] by simp_all
  show "comparePassword L v None = Inl IllegalArguments"
    by (simp add: comparePassword_def)
  show "comparePassword L v (Some c) = comparePassword L v (Some p)"
    if "bcrypt_key c = bcrypt_key p" for c
    using that by (rule compare_same_key)
  assume f: "field v ''password'' = Some (bcrypt_hash L p 10)"
    and w: "length (bcrypt_hash L p 10) = 60 \<and> take 29 (bcrypt_hash L p 10) = bcrypt_genSalt L 10
             \<and> bcrypt_valid_salt L (bcrypt_genSalt L 10)"
  show "comparePassword L v (Some c) =
          Inr (bcrypt_crypt L (bcrypt_key c) (bcrypt_genSalt L 10)
               = bcrypt_crypt L (bcrypt_key p) (bcrypt_genSalt L 10))" for c
    using compare_hash [OF f] w by simp
  then show "comparePassword L v (Some p) = Inr True" by simp
  show "bcrypt_hash L p 10 \<noteq> p" if "length p \<noteq> 60"
    using that w by auto
qed

text \<open>
  The theorem of C4 on the stored user of the example database, whose password is the
  hash of \<open>password123\<close>, and on a new document with that password.
\<close>

theorem password_hashed_witness:
  "''password'' \<in> set (modified (new_document userSchema 8 [(''password'', Some ''password123'')]))
   \<and> field (new_document userSchema 8 [(''password'', Some ''password123'')]) ''password''
       = Some ''password123''
   \<and> (\<exists>d'. pre_save example_lib (new_document userSchema 8 [(''password'', Some ''password123'')]) = Inr d'
         \<and> field d' ''password'' = Some ''$2a$10$abcdefghijklmnopqrstuvpassword123....................''
         \<and> (\<forall>k. k \<noteq> ''password'' \<longrightarrow>
                field d' k = field (new_document userSchema 8 [(''password'', Some ''password123'')]) k))
   \<and> field example_user ''password'' = Some (bcrypt_hash example_lib ''password123'' 10)
   \<and> length (bcrypt_hash example_lib ''password123'' 10) = 60
   \<and> take 29 (bcrypt_hash example_lib ''password123'' 10) = bcrypt_genSalt example_lib 10
   \<and> bcrypt_valid_salt example_lib (bcrypt_genSalt example_lib 10)
   \<and> comparePassword example_lib example_user (Some ''password123'') = Inr True
   \<and> comparePassword example_lib example_user None = Inl IllegalArguments"
proof -
  have h: "''password'' \<in> set (modified (new_document userSchema 8 [(''password'', Some ''password123'')]))"
    "field (new_document userSchema 8 [(''password'', Some ''password123'')]) ''password''
       = Some ''password123''"
    by (simp_all add: new_document_def userSchema_def apply_setters_def has_option_def field_def)
  have w: "field example_user ''password'' = Some (bcrypt_hash example_lib ''password123'' 10)"
    "length (bcrypt_hash example_lib ''password123'' 10) = 60"
    "take 29 (bcrypt_hash example_lib ''password123'' 10) = bcrypt_genSalt example_lib 10"
    "bcrypt_valid_salt example_lib (bcrypt_genSalt example_lib 10)"
    by (simp_all add: example_hash example_user_def field_def) (simp_all add: example_lib_def)
  show ?thesis
    using h w example_hash
      password_hashed [where d = "new_document userSchema 8 [(''password'', Some ''password123'')]"
        and L = example_lib and p = "''password123''" and v = example_user
        and E = example_env and D = example_db and i = 8 and n = None and e = None]
    by simp
qed

text \<open>
  C4 as the specification words it fails. Two passwords of 73 characters that differ
  in the last one have the same key; a user saved with the first is stored with the hash
  of that key, and \<open>comparePassword\<close> answers true for the second.
\<close>

theorem comparePassword_counterexample:
  "example_long_password \<noteq> example_other_password
   \<and> bcrypt_key example_long_password = bcrypt_key example_other_password
   \<and> save example_lib example_env example_db
       (new_document userSchema 8
          [(''name'', Some ''Al''), (''email'', Some ''al@example.com''),
           (''password'', Some example_long_password)])
     = Inr (\<lparr>users = [example_user, example_long_user], connected = True, next_id = 9\<rparr>,
            example_long_user)
   \<and> comparePassword example_lib example_long_user (Some example_other_password) = Inr True"
proof -
  have k: "bcrypt_key example_long_password = bcrypt_key example_other_password"
    by (simp add: bcrypt_key_def utf8_def utf8_char_def example_long_password_def
        example_other_password_def)
  have h: "bcrypt_hash example_lib example_long_password 10
             = ''$2a$10$abcdefghijklmnopqrstuvaaaaaaaaaaaaaaaaaaaaaaaaaaaaaaa''"
    by (simp add: bcrypt_hash_def bcrypt_key_def utf8_def utf8_char_def example_lib_def
        example_long_password_def)
  have t: "trim ''Al'' = ''Al''" by (simp add: trim_def is_space_def)
  have s: "save example_lib example_env example_db
       (new_document userSchema 8
          [(''name'', Some ''Al''), (''email'', Some ''al@example.com''),
           (''password'', Some example_long_password)])
     = Inr (\<lparr>users = [example_user, example_long_user], connected = True, next_id = 9\<rparr>,
            example_long_user)"
    using save_new_user [of example_db "''Al''" "''al@example.com''" example_long_password
        example_lib example_env 8] h t
    by (simp add: example_db_def example_user_def field_def example_long_user_def example_env_def)
       (simp add: example_long_password_def)
  have c: "comparePassword example_lib example_long_user (Some example_long_password) = Inr True"
    by (simp add: comparePassword_def example_long_user_def field_def bcrypt_compare_def
        bcrypt_key_def utf8_def utf8_char_def example_long_password_def)
       (simp add: example_lib_def)
  show ?thesis
    using k s c compare_same_key [OF k [symmetric], of example_lib example_long_user]
    by (simp add: example_long_password_def example_other_password_def)
qed

text \<open>
  A registration that passes the validation chain, with an email that is not stored yet
  and not empty once normalised, on a database that answers, when the token can be
  signed: the answer is 201 with the token and the id, name and email of the user, and
  the user is stored with the trimmed name, the normalised email and the hash of the
  password.
\<close>

theorem register_success:
  "snd (register_validation L b) = [] \<and> connected D
     \<and> normalizeEmail L (to_string (email b)) \<noteq> []
     \<and> (\<forall>u \<in> set (users D). field u ''email'' \<noteq> Some (normalizeEmail L (to_string (email b))))
     \<and> jwt_sign L (JObj [(''id'', JNum (int (next_id D)))]) (JWT_SECRET E) = Some token
   \<longrightarrow> response (register L E D b) =
         \<lparr>status = JNum 201,
          body = JObj [(''token'', JStr token),
                       (''user'', JObj [(''id'', JNum (int (next_id D))),
                                       (''name'', JStr (trim (to_string (name b)))),
                                       (''email'', JStr (normalizeEmail L (to_string (email b))))])]\<rparr>
       \<and> users (database (register L E D b)) =
           users D @
             [\<lparr>doc_id = next_id D,
               doc_fields = [(''name'', trim (to_string (name b))),
                             (''email'', normalizeEmail L (to_string (email b))),
                             (''password'', bcrypt_hash L (to_string (password b)) 10)],
               modified = [], createdAt = Some (now E), updatedAt = Some (now E)\<rparr>]"
proof (intro impI, elim conjE)
  let ?n = "trim (to_string (name b))" and ?e = "normalizeEmail L (to_string (email b))"
  let ?p = "to_string (password b)"
  assume v: "snd (register_validation L b) = []" and c: "connected D" and ne: "?e \<noteq> []"
    and fresh: "\<forall>u \<in> set (users D). field u ''email'' \<noteq> Some ?e"
    and tok: "jwt_sign L (JObj [(''id'', JNum (int (next_id D)))]) (JWT_SECRET E) = Some token"
  have len: "2 \<le> length ?n" "6 \<le> length ?p"
    using v by (auto simp: register_validation_def Let_def isLength_def split: if_splits)
  then have pw: "password b = Some ?p"
    by (cases "password b") (auto simp: to_string_def)
  have rv: "register_validation L b = (b\<lparr>name := Some ?n, email := Some ?e\<rparr>, [])"
    using v by (cases "register_validation L b") (auto simp: register_validation_def Let_def)
  have n: "trim ?n \<noteq> []" and p: "?p \<noteq> []" using len by (auto simp: trim_idem)
  show "response (register L E D b) =
         \<lparr>status = JNum 201,
          body = JObj [(''token'', JStr token),
                       (''user'', JObj [(''id'', JNum (int (next_id D))),
                                       (''name'', JStr ?n), (''email'', JStr ?e)])]\<rparr>
       \<and> users (database (register L E D b)) =
           users D @
             [\<lparr>doc_id = next_id D,
               doc_fields = [(''name'', ?n), (''email'', ?e), (''password'', bcrypt_hash L ?p 10)],
               modified = [], createdAt = Some (now E), updatedAt = Some (now E)\<rparr>]"
    using pw tok save_new_user [OF c n ne p fresh, of L E "next_id D"] findOne_none [OF c fresh]
    by (simp add: register_def rv id_json_def opt_json_def trim_idem)
qed

text \<open>The registration of tests/auth.test.js with an email that is not stored.\<close>

theorem register_success_witness:
  "response (register example_lib example_env example_db
      \<lparr>name = Some ''Test User'', email = Some ''new@example.com'', password = Some ''password123''\<rparr>) =
     \<lparr>status = JNum 201,
      body = JObj [(''token'', JStr ''tok7''),
                   (''user'', JObj [(''id'', JNum 8), (''name'', JStr ''Test User''),
                                   (''email'', JStr ''new@example.com'')])]\<rparr>
   \<and> users (database (register example_lib example_env example_db
      \<lparr>name = Some ''Test User'', email = Some ''new@example.com'', password = Some ''password123''\<rparr>)) =
       [example_user,
        \<lparr>doc_id = 8,
         doc_fields = [(''name'', ''Test User''), (''email'', ''new@example.com''),
                       (''password'', ''$2a$10$abcdefghijklmnopqrstuvpassword123....................'')],
         modified = [], createdAt = Some 1700000000, updatedAt = Some 1700000000\<rparr>]"
proof -
  have h: "snd (register_validation example_lib
        \<lparr>name = Some ''Test User'', email = Some ''new@example.com'', password = Some ''password123''\<rparr>) = []"
    "connected example_db" "next_id example_db = 8" "users example_db = [example_user]"
    "normalizeEmail example_lib ''new@example.com'' = ''new@example.com''"
    "\<forall>u \<in> set (users example_db). field u ''email'' \<noteq> Some ''new@example.com''"
    "jwt_sign example_lib (JObj [(''id'', JNum 8)]) (JWT_SECRET example_env) = Some ''tok7''"
    "trim ''Test User'' = ''Test User''" "now example_env = 1700000000"
    by (simp_all add: register_validation_def example_lib_def example_db_def example_env_def
        example_user_def field_def trim_def is_space_def isLength_def to_string_def Let_def)
  show ?thesis
    using h example_hash register_success [of example_lib
        "\<lparr>name = Some ''Test User'', email = Some ''new@example.com'', password = Some ''password123''\<rparr>"
        example_db example_env "''tok7''"]
    by (simp add: to_string_def)
qed


section \<open>The socket handlers\<close>

lemma on_connection_listeners:
  "listeners s = [] \<Longrightarrow> listeners (fst (on_connection s)) = app_listeners"
  by (simp add: on_connection_def routes_socket_def socket_on_def socket_listeners_def
      removeAllListeners_def app_listeners_def Let_def)

lemma on_connection_frame:
  "sid (fst (on_connection s)) = sid s" "userId (fst (on_connection s)) = userId s"
  "rooms (fst (on_connection s)) = rooms s" "socket_user (fst (on_connection s)) = socket_user s"
  by (simp_all add: on_connection_def routes_socket_def socket_on_def socket_listeners_def
      removeAllListeners_def Let_def)

lemma connect_example:
  "connect example_lib example_env ''sock1'' (Some ''tok7'')
     = Inr (example_socket, [Log [JStr ''User connected:'', JStr ''sock1'']])"
  by (simp add: connect_def socketAuth_def example_lib_def example_env_def example_socket_def
      on_connection_def routes_socket_def socket_on_def socket_listeners_def
      removeAllListeners_def app_listeners_def Let_def)

lemma join_example:
  "receive_all example_lib example_env example_socket [(''join'', JStr ''lobby'')]
     = Inr (example_lobby_socket, [LogJoined (JStr ''lobby'')])"
  by (simp add: receive_def socket_listeners_def socket_join_def example_socket_def
      example_lobby_socket_def app_listeners_def)

lemma listeners_simps:
  "listeners s = app_listeners \<Longrightarrow> socket_listeners s ''sendMessage'' = [SendMessage]"
  "listeners s = app_listeners \<Longrightarrow> socket_listeners s ''typing'' = [Typing]"
  "listeners s = app_listeners \<Longrightarrow> socket_listeners s ''stopTyping'' = [StopTyping]"
  "listeners s = app_listeners \<Longrightarrow> socket_listeners s ''disconnect'' = [PresenceDisconnect (Some Disconnect)]"
  "listeners s = app_listeners \<Longrightarrow> socket_listeners s ''userOnline'' = [UserOnline]"
  by (simp_all add: socket_listeners_def app_listeners_def)

lemma set_add_rooms: "set (add_rooms xs rs) = set rs \<union> set xs"
  by (induction xs arbitrary: rs) auto

lemma socket_join_frame [simp]:
  "listeners (socket_join r s) = listeners s" "sid (socket_join r s) = sid s"
  "userId (socket_join r s) = userId s"
  "set (rooms (socket_join r s)) = set (rooms s) \<union> set (spread r)"
  by (simp_all add: socket_join_def set_add_rooms)

lemma run_frame:
  "run L E h a s = Inr (s', effs) \<Longrightarrow>
     listeners s' = listeners s \<and> sid s' = sid s \<and> set (rooms s) \<subseteq> set (rooms s')"
proof (induction L E h a s arbitrary: s' effs rule: run.induct)
  case (1 L E userId' s)
  then show ?case by auto
next
  case (2 L E data s)
  then show ?case by (auto split: sum.splits)
next
  case (3 L E data s)
  then show ?case by (auto split: sum.splits)
next
  case (4 L E data s)
  then show ?case by (auto split: sum.splits)
next
  case (5 L E data s)
  then show ?case by (auto split: sum.splits)
next
  case (6 L E reason s)
  then show ?case by auto
next
  case (7 L E postData s)
  then show ?case by (auto split: option.splits)
next
  case (8 L E commentData s)
  then show ?case by (auto split: sum.splits)
next
  case (9 L E userId' s)
  then show ?case by auto
next
  case (10 L E originalDisconnect reason s)
  show ?case
  proof (cases originalDisconnect)
    case None
    then show ?thesis using 10(2) by (simp add: Let_def)
  next
    case (Some h)
    then obtain s1 e1 where r: "run L E h JUndefined s = Inr (s1, e1)" and "s' = s1"
      using 10(2) by (auto simp: Let_def split: sum.splits)
    then show ?thesis using 10(1) [OF refl Some r] by simp
  qed
qed

lemma run_all_frame:
  "run_all L E hs a s = Inr (s', effs) \<Longrightarrow>
     listeners s' = listeners s \<and> sid s' = sid s \<and> set (rooms s) \<subseteq> set (rooms s')"
proof (induction hs arbitrary: s effs)
  case Nil
  then show ?case by simp
next
  case (Cons h hs)
  then show ?case
    by (fastforce split: sum.splits prod.splits dest: run_frame)
qed

lemma receive_all_frame:
  "receive_all L E s evs = Inr (s', effs) \<Longrightarrow>
     listeners s' = listeners s \<and> sid s' = sid s \<and> set (rooms s) \<subseteq> set (rooms s')"
proof (induction evs arbitrary: s effs)
  case Nil
  then show ?case by simp
next
  case (Cons ev evs)
  then show ?case
    by (fastforce simp: receive_def split: sum.splits prod.splits dest: run_all_frame)
qed

lemma on_connection_result:
  assumes "on_connection s0 = (c, e0)" and "listeners s0 = []"
  shows "listeners c = app_listeners \<and> sid c = sid s0 \<and> userId c = userId s0
    \<and> rooms c = rooms s0"
proof -
  have "c = fst (on_connection s0)" using assms(1) by simp
  then show ?thesis using assms(2) by (simp add: on_connection_listeners on_connection_frame)
qed

lemma connect_socket:
  assumes "connect L E i tok = Inr (c, e0)"
  shows "listeners c = app_listeners" and "sid c = i"
    and "\<exists>t decoded. tok = Some t \<and> jwt_verify L t (JWT_SECRET E) = Some decoded
            \<and> get_prop decoded ''id'' = Inr (userId c)"
    and "JStr i \<in> set (rooms c)"
  using assms
  by (auto simp: connect_def socketAuth_def
      split: option.splits if_splits sum.splits dest!: on_connection_result)

lemma connected_socket:
  assumes "connect L E i tok = Inr (c, e0)" and "receive_all L E c evs = Inr (s, effs)"
  shows "listeners s = app_listeners" and "sid s = i" and "JStr i \<in> set (rooms s)"
  using assms connect_socket(1,2,4) [OF assms(1)] receive_all_frame [OF assms(2)] by auto

lemma run_userId_plain:
  assumes "run L E h a s = Inr (s', effs)" and "h \<noteq> UserOnline" and "\<forall>z. h \<noteq> PresenceDisconnect z"
  shows "userId s' = userId s"
  using assms
  by (cases h) (auto simp: socket_join_def split: sum.splits option.splits)

lemma run_userId:
  assumes "run L E h a s = Inr (s', effs)"
    and "h \<in> {Join, SendMessage, Typing, StopTyping, SendNotification, NewPost, AddComment,
               PresenceDisconnect (Some Disconnect)}"
  shows "userId s' = userId s"
proof (cases "h = PresenceDisconnect (Some Disconnect)")
  case True
  then show ?thesis using assms(1) by (auto simp: Let_def)
next
  case False
  then show ?thesis using assms by (intro run_userId_plain [OF assms(1)]) auto
qed

lemma app_listeners_lookup:
  "listeners s = app_listeners \<Longrightarrow>
   socket_listeners s ev =
     (if ev = ''join'' then [Join] else if ev = ''sendMessage'' then [SendMessage]
      else if ev = ''typing'' then [Typing] else if ev = ''stopTyping'' then [StopTyping]
      else if ev = ''sendNotification'' then [SendNotification]
      else if ev = ''newPost'' then [NewPost] else if ev = ''addComment'' then [AddComment]
      else if ev = ''userOnline'' then [UserOnline]
      else if ev = ''disconnect'' then [PresenceDisconnect (Some Disconnect)] else [])"
  by (auto simp: socket_listeners_def app_listeners_def)

lemma receive_userId:
  assumes "listeners s = app_listeners" and "receive L E s ev = Inr (s', effs)"
  shows "userId s' = (if fst ev = ''userOnline'' then snd ev else userId s)"
proof (cases "fst ev = ''userOnline''")
  case True
  then show ?thesis using assms by (auto simp: receive_def app_listeners_lookup)
next
  case False
  then have "socket_listeners s (fst ev) = [] \<or>
      (\<exists>h. socket_listeners s (fst ev) = [h] \<and>
        h \<in> {Join, SendMessage, Typing, StopTyping, SendNotification, NewPost, AddComment,
               PresenceDisconnect (Some Disconnect)})"
    using assms(1) by (simp add: app_listeners_lookup)
  then show ?thesis
  proof (elim disjE exE conjE)
    assume "socket_listeners s (fst ev) = []"
    then show ?thesis using assms(2) False by (auto simp: receive_def)
  next
    fix h
    assume "socket_listeners s (fst ev) = [h]"
      and "h \<in> {Join, SendMessage, Typing, StopTyping, SendNotification, NewPost, AddComment,
               PresenceDisconnect (Some Disconnect)}"
    then show ?thesis using assms(2) False run_userId [of L E h "snd ev" s]
      by (auto simp: receive_def split: sum.splits prod.splits)
  qed
qed

lemma receive_all_userId:
  assumes "listeners s = app_listeners" and "receive_all L E s evs = Inr (s', effs)"
  shows "userId s' = userId_after (userId s) evs"
  using assms
proof (induction evs arbitrary: s effs)
  case Nil
  then show ?case by simp
next
  case (Cons ev evs)
  from Cons.prems(2) obtain s1 e1 e2 where
    r: "receive L E s ev = Inr (s1, e1)" and ra: "receive_all L E s1 evs = Inr (s', e2)"
    by (auto split: sum.splits prod.splits)
  have l: "listeners s1 = app_listeners"
    using r Cons.prems(1) run_all_frame [of L E _ _ s s1 e1] by (simp add: receive_def)
  have "userId s1 = (if fst ev = ''userOnline'' then snd ev else userId s)"
    using receive_userId [OF Cons.prems(1) r] .
  then show ?case using Cons.IH [OF l ra] by simp
qed

lemma disconnect_effects:
  assumes "listeners s = app_listeners"
  shows "receive L E s (''disconnect'', reason) =
     Inr (s, (if truthy (userId s)
              then [Emit (AllExcept (sid s)) ''userStatusChanged''
                      (JObj [(''userId'', userId s), (''status'', JStr ''offline'')])]
              else []) @ [Log [JStr ''User disconnected:'', JStr (sid s)]])"
  using assms by (simp add: receive_def listeners_simps)

lemma routes_socket_disconnect:
  "socket_listeners (routes_socket s0) ''disconnect'' =
     [PresenceDisconnect (case socket_listeners s0 ''disconnect'' of [] \<Rightarrow> None | h # hs \<Rightarrow> Some h)]"
  by (simp add: routes_socket_def socket_listeners_def socket_on_def removeAllListeners_def Let_def)


text \<open>
  Claim C6, as the code has it. On a connected socket, whatever events it has received,
  a \<open>sendMessage\<close> event whose data is an object makes the server emit one \<open>message\<close> event
  through \<open>io.to(data.room)\<close>; the payload is a new object with the \<open>message\<close> and the
  \<open>sender\<close> of the data and the server's time as \<open>timestamp\<close>. When \<open>data.room\<close> is a string
  (or another value that is no array and no object) the sockets that receive it are
  those in that room, the sender among them when it is in the room; when it is an array,
  those in one of the rooms it lists, and every socket when it lists none; when it is
  an object, none.
\<close>

theorem sendMessage_relay:
  "connect L E i tok = Inr (c, e0) \<and> receive_all L E c evs = Inr (s, effs) \<longrightarrow>
     receive L E s (''sendMessage'', JObj kvs)
       = Inr (s, [Emit (Room (obj_get kvs ''room'')) ''message''
                    (JObj [(''message'', obj_get kvs ''message''),
                           (''sender'', obj_get kvs ''sender''),
                           (''timestamp'', JNum (int (now E)))])])
     \<and> (is_primitive (obj_get kvs ''room'') \<longrightarrow>
          receives x (Room (obj_get kvs ''room'')) = (obj_get kvs ''room'' \<in> set (rooms x)))
     \<and> (\<forall>rs. obj_get kvs ''room'' = JArr rs \<longrightarrow>
          receives x (Room (obj_get kvs ''room''))
            = (rs = [] \<or> (\<exists>q \<in> set rs. is_primitive q \<and> q \<in> set (rooms x))))
     \<and> (\<forall>fs. obj_get kvs ''room'' = JObj fs \<longrightarrow> \<not> receives x (Room (obj_get kvs ''room'')))"
proof
  assume "connect L E i tok = Inr (c, e0) \<and> receive_all L E c evs = Inr (s, effs)"
  then have l: "listeners s = app_listeners" using connected_socket(1) by blast
  have "receive L E s (''sendMessage'', JObj kvs)
       = Inr (s, [Emit (Room (obj_get kvs ''room'')) ''message''
                    (JObj [(''message'', obj_get kvs ''message''),
                           (''sender'', obj_get kvs ''sender''),
                           (''timestamp'', JNum (int (now E)))])])"
    using l by (simp add: receive_def listeners_simps obj_get_def)
  moreover have "is_primitive (obj_get kvs ''room'') \<longrightarrow>
          receives x (Room (obj_get kvs ''room'')) = (obj_get kvs ''room'' \<in> set (rooms x))"
    by (cases "obj_get kvs ''room''") (simp_all add: reached_def in_room_def)
  moreover have "\<forall>rs. obj_get kvs ''room'' = JArr rs \<longrightarrow>
          receives x (Room (obj_get kvs ''room''))
            = (rs = [] \<or> (\<exists>q \<in> set rs. is_primitive q \<and> q \<in> set (rooms x)))"
    by (simp add: reached_def in_room_def list_ex_iff)
  moreover have "\<forall>fs. obj_get kvs ''room'' = JObj fs \<longrightarrow> \<not> receives x (Room (obj_get kvs ''room''))"
    by (simp add: reached_def in_room_def list_ex_iff)
  ultimately show "receive L E s (''sendMessage'', JObj kvs)
       = Inr (s, [Emit (Room (obj_get kvs ''room'')) ''message''
                    (JObj [(''message'', obj_get kvs ''message''),
                           (''sender'', obj_get kvs ''sender''),
                           (''timestamp'', JNum (int (now E)))])])
     \<and> (is_primitive (obj_get kvs ''room'') \<longrightarrow>
          receives x (Room (obj_get kvs ''room'')) = (obj_get kvs ''room'' \<in> set (rooms x)))
     \<and> (\<forall>rs. obj_get kvs ''room'' = JArr rs \<longrightarrow>
          receives x (Room (obj_get kvs ''room''))
            = (rs = [] \<or> (\<exists>q \<in> set rs. is_primitive q \<and> q \<in> set (rooms x))))
     \<and> (\<forall>fs. obj_get kvs ''room'' = JObj fs \<longrightarrow> \<not> receives x (Room (obj_get kvs ''room'')))"
    by blast
qed

text \<open>
  The theorem of C6 on the example socket after it has joined the room \<open>lobby\<close>: it sends
  a message to that room and is among those who receive it.
\<close>

theorem sendMessage_relay_witness:
  "connect example_lib example_env ''sock1'' (Some ''tok7'')
     = Inr (example_socket, [Log [JStr ''User connected:'', JStr ''sock1'']])
   \<and> receive_all example_lib example_env example_socket [(''join'', JStr ''lobby'')]
     = Inr (example_lobby_socket, [LogJoined (JStr ''lobby'')])
   \<and> receive example_lib example_env example_lobby_socket
       (''sendMessage'',
        JObj [(''message'', JStr ''hi''), (''room'', JStr ''lobby''), (''sender'', JStr ''alice'')])
     = Inr (example_lobby_socket,
            [Emit (Room (JStr ''lobby'')) ''message''
               (JObj [(''message'', JStr ''hi''), (''sender'', JStr ''alice''),
                      (''timestamp'', JNum 1700000000)])])
   \<and> receives example_lobby_socket (Room (JStr ''lobby''))
   \<and> \<not> receives example_den_socket (Room (JStr ''lobby''))"
proof -
  have h: "now example_env = 1700000000"
    "JStr ''lobby'' \<in> set (rooms example_lobby_socket)"
    "JStr ''lobby'' \<notin> set (rooms example_den_socket)"
    by (simp_all add: example_env_def example_lobby_socket_def example_den_socket_def)
  show ?thesis
    using h connect_example join_example
      sendMessage_relay [of example_lib example_env "''sock1''" "Some ''tok7''" example_socket
        "[Log [JStr ''User connected:'', JStr ''sock1'']]" "[(''join'', JStr ''lobby'')]"
        example_lobby_socket "[LogJoined (JStr ''lobby'')]"
        "[(''message'', JStr ''hi''), (''room'', JStr ''lobby''), (''sender'', JStr ''alice'')]"
        example_lobby_socket]
      sendMessage_relay [of example_lib example_env "''sock1''" "Some ''tok7''" example_socket
        "[Log [JStr ''User connected:'', JStr ''sock1'']]" "[(''join'', JStr ''lobby'')]"
        example_lobby_socket "[LogJoined (JStr ''lobby'')]"
        "[(''message'', JStr ''hi''), (''room'', JStr ''lobby''), (''sender'', JStr ''alice'')]"
        example_den_socket]
    by (simp add: obj_get_simps)
qed

text \<open>
  C6 as the specification words it fails: the data received is
  \<open>{message: "hi", room: "lobby", sender: "alice"}\<close>, the payload emitted is
  \<open>{message: "hi", sender: "alice", timestamp: ...}\<close>.
\<close>

theorem sendMessage_counterexample:
  "connect example_lib example_env ''sock1'' (Some ''tok7'')
     = Inr (example_socket, [Log [JStr ''User connected:'', JStr ''sock1'']])
   \<and> receive example_lib example_env example_socket
       (''sendMessage'',
        JObj [(''message'', JStr ''hi''), (''room'', JStr ''lobby''), (''sender'', JStr ''alice'')])
     = Inr (example_socket,
            [Emit (Room (JStr ''lobby'')) ''message''
               (JObj [(''message'', JStr ''hi''), (''sender'', JStr ''alice''),
                      (''timestamp'', JNum 1700000000)])])
   \<and> JObj [(''message'', JStr ''hi''), (''sender'', JStr ''alice''), (''timestamp'', JNum 1700000000)]
       \<noteq> JObj [(''message'', JStr ''hi''), (''room'', JStr ''lobby''), (''sender'', JStr ''alice'')]"
  by (simp add: connect_example receive_def listeners_simps example_socket_def)
     (simp add: example_env_def)

text \<open>
  Claim C7, as the code has it. On a connected socket, whatever events it has received,
  a \<open>typing\<close> event whose data is an object makes the server emit \<open>userTyping\<close> with
  \<open>{user: data.user, isTyping: true}\<close> through \<open>socket.to(data.room)\<close>, and a \<open>stopTyping\<close>
  event the same with \<open>isTyping: false\<close>. The emitting socket receives neither. Another
  socket receives them when it is in the room \<open>data.room\<close> (in one of the rooms that
  \<open>data.room\<close> lists when it is an array, whatever its rooms when the array lists none)
  and has not joined the room named by the id of the emitting socket.
\<close>

theorem typing_relay:
  "connect L E i tok = Inr (c, e0) \<and> receive_all L E c evs = Inr (s, effs) \<longrightarrow>
     receive L E s (''typing'', JObj kvs)
       = Inr (s, [Emit (RoomExcept (obj_get kvs ''room'') (sid s)) ''userTyping''
                    (JObj [(''user'', obj_get kvs ''user''), (''isTyping'', JBool True)])])
     \<and> receive L E s (''stopTyping'', JObj kvs)
       = Inr (s, [Emit (RoomExcept (obj_get kvs ''room'') (sid s)) ''userTyping''
                    (JObj [(''user'', obj_get kvs ''user''), (''isTyping'', JBool False)])])
     \<and> \<not> receives s (RoomExcept (obj_get kvs ''room'') (sid s))
     \<and> (is_primitive (obj_get kvs ''room'') \<longrightarrow>
          receives x (RoomExcept (obj_get kvs ''room'') (sid s))
            = (obj_get kvs ''room'' \<in> set (rooms x) \<and> JStr (sid s) \<notin> set (rooms x)))
     \<and> (\<forall>rs. obj_get kvs ''room'' = JArr rs \<longrightarrow>
          receives x (RoomExcept (obj_get kvs ''room'') (sid s))
            = ((rs = [] \<or> (\<exists>q \<in> set rs. is_primitive q \<and> q \<in> set (rooms x)))
               \<and> JStr (sid s) \<notin> set (rooms x)))"
proof
  assume a: "connect L E i tok = Inr (c, e0) \<and> receive_all L E c evs = Inr (s, effs)"
  then have l: "listeners s = app_listeners" using connected_socket(1) by blast
  have own: "JStr (sid s) \<in> set (rooms s)"
    using a connected_socket(2,3) by blast
  have "receive L E s (''typing'', JObj kvs)
       = Inr (s, [Emit (RoomExcept (obj_get kvs ''room'') (sid s)) ''userTyping''
                    (JObj [(''user'', obj_get kvs ''user''), (''isTyping'', JBool True)])])"
    using l by (simp add: receive_def listeners_simps obj_get_def)
  moreover have "receive L E s (''stopTyping'', JObj kvs)
       = Inr (s, [Emit (RoomExcept (obj_get kvs ''room'') (sid s)) ''userTyping''
                    (JObj [(''user'', obj_get kvs ''user''), (''isTyping'', JBool False)])])"
    using l by (simp add: receive_def listeners_simps obj_get_def)
  moreover have "\<not> receives s (RoomExcept (obj_get kvs ''room'') (sid s))"
    using own by (simp add: reached_def in_room_def)
  moreover have "is_primitive (obj_get kvs ''room'') \<longrightarrow>
          receives x (RoomExcept (obj_get kvs ''room'') (sid s))
            = (obj_get kvs ''room'' \<in> set (rooms x) \<and> JStr (sid s) \<notin> set (rooms x))"
    by (cases "obj_get kvs ''room''") (simp_all add: reached_def in_room_def)
  moreover have "\<forall>rs. obj_get kvs ''room'' = JArr rs \<longrightarrow>
          receives x (RoomExcept (obj_get kvs ''room'') (sid s))
            = ((rs = [] \<or> (\<exists>q \<in> set rs. is_primitive q \<and> q \<in> set (rooms x)))
               \<and> JStr (sid s) \<notin> set (rooms x))"
    by (simp add: reached_def in_room_def list_ex_iff)
  ultimately show "receive L E s (''typing'', JObj kvs)
       = Inr (s, [Emit (RoomExcept (obj_get kvs ''room'') (sid s)) ''userTyping''
                    (JObj [(''user'', obj_get kvs ''user''), (''isTyping'', JBool True)])])
     \<and> receive L E s (''stopTyping'', JObj kvs)
       = Inr (s, [Emit (RoomExcept (obj_get kvs ''room'') (sid s)) ''userTyping''
                    (JObj [(''user'', obj_get kvs ''user''), (''isTyping'', JBool False)])])
     \<and> \<not> receives s (RoomExcept (obj_get kvs ''room'') (sid s))
     \<and> (is_primitive (obj_get kvs ''room'') \<longrightarrow>
          receives x (RoomExcept (obj_get kvs ''room'') (sid s))
            = (obj_get kvs ''room'' \<in> set (rooms x) \<and> JStr (sid s) \<notin> set (rooms x)))
     \<and> (\<forall>rs. obj_get kvs ''room'' = JArr rs \<longrightarrow>
          receives x (RoomExcept (obj_get kvs ''room'') (sid s))
            = ((rs = [] \<or> (\<exists>q \<in> set rs. is_primitive q \<and> q \<in> set (rooms x)))
               \<and> JStr (sid s) \<notin> set (rooms x)))"
    by blast
qed

text \<open>
  The theorem of C7 on the example socket after it has joined the room \<open>lobby\<close>, with a
  second socket in that room and a third in another.
\<close>

theorem typing_relay_witness:
  "connect example_lib example_env ''sock1'' (Some ''tok7'')
     = Inr (example_socket, [Log [JStr ''User connected:'', JStr ''sock1'']])
   \<and> receive_all example_lib example_env example_socket [(''join'', JStr ''lobby'')]
     = Inr (example_lobby_socket, [LogJoined (JStr ''lobby'')])
   \<and> receive example_lib example_env example_lobby_socket
       (''typing'', JObj [(''room'', JStr ''lobby''), (''user'', JStr ''alice'')])
     = Inr (example_lobby_socket,
            [Emit (RoomExcept (JStr ''lobby'') ''sock1'') ''userTyping''
               (JObj [(''user'', JStr ''alice''), (''isTyping'', JBool True)])])
   \<and> receive example_lib example_env example_lobby_socket
       (''stopTyping'', JObj [(''room'', JStr ''lobby''), (''user'', JStr ''alice'')])
     = Inr (example_lobby_socket,
            [Emit (RoomExcept (JStr ''lobby'') ''sock1'') ''userTyping''
               (JObj [(''user'', JStr ''alice''), (''isTyping'', JBool False)])])
   \<and> \<not> receives example_lobby_socket (RoomExcept (JStr ''lobby'') ''sock1'')
   \<and> receives (example_den_socket\<lparr>rooms := [JStr ''sock2'', JStr ''lobby'']\<rparr>)
        (RoomExcept (JStr ''lobby'') ''sock1'')
   \<and> \<not> receives example_den_socket (RoomExcept (JStr ''lobby'') ''sock1'')"
proof -
  have h: "sid example_lobby_socket = ''sock1''"
    "rooms example_den_socket = [JStr ''sock2'', JStr ''den'']"
    by (simp_all add: example_lobby_socket_def example_den_socket_def example_socket_def)
  show ?thesis
    using h connect_example join_example
      typing_relay [of example_lib example_env "''sock1''" "Some ''tok7''" example_socket
        "[Log [JStr ''User connected:'', JStr ''sock1'']]" "[(''join'', JStr ''lobby'')]"
        example_lobby_socket "[LogJoined (JStr ''lobby'')]"
        "[(''room'', JStr ''lobby''), (''user'', JStr ''alice'')]"
        "example_den_socket\<lparr>rooms := [JStr ''sock2'', JStr ''lobby'']\<rparr>"]
      typing_relay [of example_lib example_env "''sock1''" "Some ''tok7''" example_socket
        "[Log [JStr ''User connected:'', JStr ''sock1'']]" "[(''join'', JStr ''lobby'')]"
        example_lobby_socket "[LogJoined (JStr ''lobby'')]"
        "[(''room'', JStr ''lobby''), (''user'', JStr ''alice'')]"
        example_den_socket]
    by (simp add: obj_get_simps)
qed

text \<open>
  C7 as the specification words it fails: a \<open>typing\<close> event whose \<open>room\<close> is the array
  \<open>["lobby", "den"]\<close> is emitted to the rooms the array lists, and the socket \<open>sock2\<close>, which
  is in the room \<open>den\<close> and neither in \<open>lobby\<close> nor in a room that is the array, receives
  it.
\<close>

theorem typing_array_counterexample:
  "receive_all example_lib example_env example_socket [(''join'', JStr ''lobby'')]
     = Inr (example_lobby_socket, [LogJoined (JStr ''lobby'')])
   \<and> receive example_lib example_env example_lobby_socket
       (''typing'', JObj [(''room'', JArr [JStr ''lobby'', JStr ''den'']), (''user'', JStr ''alice'')])
     = Inr (example_lobby_socket,
            [Emit (RoomExcept (JArr [JStr ''lobby'', JStr ''den'']) ''sock1'') ''userTyping''
               (JObj [(''user'', JStr ''alice''), (''isTyping'', JBool True)])])
   \<and> rooms example_den_socket = [JStr ''sock2'', JStr ''den'']
   \<and> recipients [example_lobby_socket, example_den_socket]
        (RoomExcept (JArr [JStr ''lobby'', JStr ''den'']) ''sock1'') = [''sock2'']"
proof -
  have l: "listeners example_lobby_socket = app_listeners" "sid example_lobby_socket = ''sock1''"
    "rooms example_lobby_socket = [JStr ''sock1'', JStr ''lobby'']"
    "sid example_den_socket = ''sock2''" "rooms example_den_socket = [JStr ''sock2'', JStr ''den'']"
    by (simp_all add: example_lobby_socket_def example_socket_def example_den_socket_def)
  have r: "receive example_lib example_env example_lobby_socket
       (''typing'', JObj [(''room'', JArr [JStr ''lobby'', JStr ''den'']), (''user'', JStr ''alice'')])
     = Inr (example_lobby_socket,
            [Emit (RoomExcept (JArr [JStr ''lobby'', JStr ''den'']) ''sock1'') ''userTyping''
               (JObj [(''user'', JStr ''alice''), (''isTyping'', JBool True)])])"
    by (simp add: receive_def listeners_simps l)
  have p: "recipients [example_lobby_socket, example_den_socket]
        (RoomExcept (JArr [JStr ''lobby'', JStr ''den'']) ''sock1'') = [''sock2'']"
    by (simp add: recipients_def reached_def in_room_def l)
  show ?thesis
    by (intro conjI) (rule join_example, rule r, rule l(5), rule p)
qed

text \<open>
  Claim C10, as the code has it. On a connected socket, whatever events it has received,
  a disconnect broadcasts \<open>userStatusChanged\<close> with \<open>{userId: socket.userId, status:
  "offline"}\<close> to the other sockets exactly when \<open>socket.userId\<close> is truthy, and then runs
  the disconnect listener of app.js. \<open>socket.userId\<close> is what the last \<open>userOnline\<close> event
  carried, and the id of the payload of the handshake's token when there was no such
  event. In general the listener that routes/socket.js installs is the only disconnect
  listener left, it keeps the first of the listeners registered before it, and it runs
  that one, without an argument, after the broadcast.
\<close>

theorem disconnect_presence:
  "(connect L E i tok = Inr (c, e0) \<and> receive_all L E c evs = Inr (s, effs) \<longrightarrow>
      receive L E s (''disconnect'', reason) =
        Inr (s, (if truthy (userId s)
                 then [Emit (AllExcept i) ''userStatusChanged''
                         (JObj [(''userId'', userId s), (''status'', JStr ''offline'')])]
                 else []) @ [Log [JStr ''User disconnected:'', JStr i]])
      \<and> userId s = userId_after (userId c) evs
      \<and> (\<exists>t decoded. tok = Some t \<and> jwt_verify L t (JWT_SECRET E) = Some decoded
             \<and> get_prop decoded ''id'' = Inr (userId c)))
   \<and> socket_listeners (routes_socket s0) ''disconnect'' =
       [PresenceDisconnect (case socket_listeners s0 ''disconnect'' of [] \<Rightarrow> None | h # hs \<Rightarrow> Some h)]
   \<and> run L E (PresenceDisconnect (Some h)) reason s1 =
       (case run L E h JUndefined s1 of
          Inl e \<Rightarrow> Inl e
        | Inr (s2, effects) \<Rightarrow>
            Inr (s2, (if truthy (userId s1)
                      then [Emit (AllExcept (sid s1)) ''userStatusChanged''
                              (JObj [(''userId'', userId s1), (''status'', JStr ''offline'')])]
                      else []) @ effects))"
proof (intro conjI impI)
  assume a: "connect L E i tok = Inr (c, e0) \<and> receive_all L E c evs = Inr (s, effs)"
  then have l: "listeners s = app_listeners" and i: "sid s = i"
    using connected_socket by blast+
  show "receive L E s (''disconnect'', reason) =
        Inr (s, (if truthy (userId s)
                 then [Emit (AllExcept i) ''userStatusChanged''
                         (JObj [(''userId'', userId s), (''status'', JStr ''offline'')])]
                 else []) @ [Log [JStr ''User disconnected:'', JStr i]])"
    using disconnect_effects [OF l] i by simp
  show "userId s = userId_after (userId c) evs"
    using a connect_socket(1) receive_all_userId by blast
  show "\<exists>t decoded. tok = Some t \<and> jwt_verify L t (JWT_SECRET E) = Some decoded
             \<and> get_prop decoded ''id'' = Inr (userId c)"
    using a connect_socket(3) by blast
next
  show "socket_listeners (routes_socket s0) ''disconnect'' =
       [PresenceDisconnect (case socket_listeners s0 ''disconnect'' of [] \<Rightarrow> None | h # hs \<Rightarrow> Some h)]"
    by (rule routes_socket_disconnect)
next
  show "run L E (PresenceDisconnect (Some h)) reason s1 =
       (case run L E h JUndefined s1 of
          Inl e \<Rightarrow> Inl e
        | Inr (s2, effects) \<Rightarrow>
            Inr (s2, (if truthy (userId s1)
                      then [Emit (AllExcept (sid s1)) ''userStatusChanged''
                              (JObj [(''userId'', userId s1), (''status'', JStr ''offline'')])]
                      else []) @ effects))"
    by (simp add: Let_def split: sum.splits)
qed


text \<open>
  The theorem of C10 on the example socket after a \<open>userOnline\<close> event with the user id
  \<open>u42\<close>.
\<close>

theorem disconnect_presence_witness:
  "connect example_lib example_env ''sock1'' (Some ''tok7'')
     = Inr (example_socket, [Log [JStr ''User connected:'', JStr ''sock1'']])
   \<and> receive_all example_lib example_env example_socket [(''userOnline'', JStr ''u42'')]
     = Inr (example_socket\<lparr>userId := JStr ''u42''\<rparr>,
            [Emit (AllExcept ''sock1'') ''userStatusChanged''
               (JObj [(''userId'', JStr ''u42''), (''status'', JStr ''online'')])])
   \<and> receive example_lib example_env (example_socket\<lparr>userId := JStr ''u42''\<rparr>)
       (''disconnect'', JStr ''transport close'')
     = Inr (example_socket\<lparr>userId := JStr ''u42''\<rparr>,
            [Emit (AllExcept ''sock1'') ''userStatusChanged''
               (JObj [(''userId'', JStr ''u42''), (''status'', JStr ''offline'')]),
             Log [JStr ''User disconnected:'', JStr ''sock1'']])"
proof -
  have o: "receive_all example_lib example_env example_socket [(''userOnline'', JStr ''u42'')]
     = Inr (example_socket\<lparr>userId := JStr ''u42''\<rparr>,
            [Emit (AllExcept ''sock1'') ''userStatusChanged''
               (JObj [(''userId'', JStr ''u42''), (''status'', JStr ''online'')])])"
    by (simp add: receive_def socket_listeners_def example_socket_def app_listeners_def)
  have u: "userId (example_socket\<lparr>userId := JStr ''u42''\<rparr>) = JStr ''u42''"
    by simp
  show ?thesis
    using o u connect_example
      disconnect_presence [of example_lib example_env "''sock1''" "Some ''tok7''" example_socket
        "[Log [JStr ''User connected:'', JStr ''sock1'']]" "[(''userOnline'', JStr ''u42'')]"
        "example_socket\<lparr>userId := JStr ''u42''\<rparr>"
        "[Emit (AllExcept ''sock1'') ''userStatusChanged''
               (JObj [(''userId'', JStr ''u42''), (''status'', JStr ''online'')])]"
        "JStr ''transport close''"]
    by simp
qed

text \<open>
  C10 as the specification words it fails, in both directions. The example socket has
  received no \<open>userOnline\<close> event, its token carries the id 7, and its disconnect
  broadcasts that user 7 is offline. After a \<open>userOnline\<close> event that carries the id 0 the
  disconnect broadcasts nothing.
\<close>

theorem disconnect_counterexample:
  "connect example_lib example_env ''sock1'' (Some ''tok7'')
     = Inr (example_socket, [Log [JStr ''User connected:'', JStr ''sock1'']])
   \<and> receive example_lib example_env example_socket (''disconnect'', JStr ''transport close'')
     = Inr (example_socket,
            [Emit (AllExcept ''sock1'') ''userStatusChanged''
               (JObj [(''userId'', JNum 7), (''status'', JStr ''offline'')]),
             Log [JStr ''User disconnected:'', JStr ''sock1'']])
   \<and> receive_all example_lib example_env example_socket
       [(''userOnline'', JNum 0), (''disconnect'', JStr ''transport close'')]
     = Inr (example_socket\<lparr>userId := JNum 0\<rparr>,
            [Emit (AllExcept ''sock1'') ''userStatusChanged''
               (JObj [(''userId'', JNum 0), (''status'', JStr ''online'')]),
             Log [JStr ''User disconnected:'', JStr ''sock1'']])"
  by (simp add: connect_example receive_def listeners_simps example_socket_def)

end
